theory Spec2Isabelle
  imports Main "HOL-Library.Word"
begin

unbundle bit_operations_syntax

section \<open>The perfmon interface as syst.c sees it\<close>

text \<open>
  The program \<^verbatim>\<open>syst.c\<close> is one \<^verbatim>\<open>main\<close> that talks to two collaborators whose code
  is not part of the file: the pfm library (\<^verbatim>\<open>pfm_*\<close>) and the kernel's
  \<^verbatim>\<open>perfmonctl\<close> system call. The embedding keeps the program's own control flow,
  arrays and messages, and takes every answer of a collaborator from an environment
  record. Each call and its answer is appended to a log, so that the order of the
  calls can be stated.
\<close>

datatype pfm_cmd =
    PFM_CREATE_CONTEXT
  | PFM_ENABLE
  | PFM_WRITE_PMCS
  | PFM_WRITE_PMDS
  | PFM_START
  | PFM_STOP
  | PFM_READ_PMDS
  | PFM_DESTROY_CONTEXT

text \<open>The fields of the three argument structures that the program touches.\<close>

record pfarg_reg_t =
  reg_num :: "32 word"
  reg_value :: "64 word"

record pfarg_context_t =
  ctx_flags :: "64 word"
  ctx_cpu_mask :: "64 word"

record pfmlib_param_t =
  pfp_evt :: "int list"
  pfp_count :: nat
  pfp_dfl_plm :: "32 word"
  pfp_pm :: int

datatype perfmon_arg =
    Arg_ctx "pfarg_context_t list"
  | Arg_regs "pfarg_reg_t list"
  | Arg_null

text \<open>
  One entry of the log per call that leaves the program, with the arguments passed
  and the answer received. For \<^verbatim>\<open>perfmonctl\<close> the answer is \<open>None\<close> when the call
  did not return -1 and \<open>Some errno\<close> when it did.
\<close>

datatype call =
    Call_getpid
  | Call_pfm_initialize bool
  | Call_pfm_get_num_counters int
  | Call_pfm_set_options int
  | Call_pfm_find_event string nat "int option"
  | Call_pfm_dispatch_events pfmlib_param_t "pfarg_reg_t list" int
      "int + pfarg_reg_t list \<times> int"
  | Call_pfm_strerror int
  | Call_strerror int
  | Call_perfmonctl int pfm_cmd perfmon_arg int "int option"
  | Call_getchar
  | Call_pfm_get_event_name int

record world =
  calls :: "call list"
  stdout :: "string list"
  stderr :: "string list"

text \<open>
  The environment: what the library and the kernel answer, and the constants of the
  headers \<^verbatim>\<open>perfmon/pfmlib.h\<close> and \<^verbatim>\<open>perfmon/perfmon.h\<close>, which the source includes
  but does not contain.
  \<^item> \<open>pfm_initialize\<close>: whether the call returned \<^verbatim>\<open>PFMLIB_SUCCESS\<close>;
  \<^item> \<open>pfm_find_event\<close>: \<open>Some ev\<close> when the call returned \<^verbatim>\<open>PFMLIB_SUCCESS\<close> and
    stored the descriptor \<open>ev\<close>, \<open>None\<close> otherwise;
  \<^item> \<open>pfm_dispatch_events\<close>: \<open>Inl ret\<close> for a return value other than
    \<^verbatim>\<open>PFMLIB_SUCCESS\<close>, \<open>Inr (pc, cnt)\<close> for the array and the count it left;
  \<^item> \<open>perfmonctl\<close>: \<open>Some errno\<close> when the call returned -1;
  \<^item> \<open>pmd_value\<close>: the value the kernel stores in \<^verbatim>\<open>reg_value\<close> when
    \<^verbatim>\<open>PFM_READ_PMDS\<close> reads the register \<^verbatim>\<open>reg_num\<close>;
  \<^item> \<open>pfp_evt_len\<close>: the declared length of the array \<^verbatim>\<open>pfp_evt\<close>.
\<close>

record env =
  getpid :: int
  pfm_initialize :: bool
  pfm_get_num_counters :: int
  pfm_find_event :: "string \<Rightarrow> int option"
  pfm_dispatch_events ::
    "pfmlib_param_t \<Rightarrow> pfarg_reg_t list \<Rightarrow> int \<Rightarrow> int + pfarg_reg_t list \<times> int"
  pfm_strerror :: "int \<Rightarrow> string"
  pfm_get_event_name :: "int \<Rightarrow> string"
  perfmonctl :: "int \<Rightarrow> pfm_cmd \<Rightarrow> perfmon_arg \<Rightarrow> int \<Rightarrow> int option"
  pmd_value :: "32 word \<Rightarrow> 64 word"
  strerror :: "int \<Rightarrow> string"
  PMU_MAX_PMCS :: nat
  PMU_MAX_PMDS :: nat
  pfp_evt_len :: nat
  PFM_PLM0 :: "32 word"
  PFM_FL_INHERIT_NONE :: "64 word"
  PFM_FL_SYSTEM_WIDE :: "64 word"

definition WHICH_CPU :: nat where
  "WHICH_CPU = 0"

definition event_list :: "string list" where
  "event_list = [''cpu_cycles'', ''IA64_INST_RETIRED'']"

definition ENOSYS :: int where
  "ENOSYS = 38"

section \<open>Running the program\<close>

text \<open>
  A step of the program ends the process with a status (\<^verbatim>\<open>exit\<close>, or a
  \<^verbatim>\<open>return\<close> from \<^verbatim>\<open>main\<close>), leaves the arrays it indexes (\<open>Fault\<close>: the C
  program's behaviour is undefined from there), or continues with a value.
\<close>

datatype 'a step = Exit int world | Fault world | Cont 'a world

definition then_step :: "'a step \<Rightarrow> ('a \<Rightarrow> world \<Rightarrow> 'b step) \<Rightarrow> 'b step" where
  "then_step m f = (case m of Exit s w \<Rightarrow> Exit s w | Fault w \<Rightarrow> Fault w | Cont a w \<Rightarrow> f a w)"

definition called :: "call \<Rightarrow> world \<Rightarrow> world" where
  "called c w = w\<lparr>calls := calls w @ [c]\<rparr>"

definition printf :: "string \<Rightarrow> world \<Rightarrow> world" where
  "printf s w = w\<lparr>stdout := stdout w @ [s]\<rparr>"

definition exit_with :: "int \<Rightarrow> world \<Rightarrow> 'a step" where
  "exit_with s w = Exit s w"

definition return_from_main :: "int \<Rightarrow> world \<Rightarrow> 'a step" where
  "return_from_main v w = Exit v w"

text \<open>\<^verbatim>\<open>fatal_error\<close>: the formatted message goes to stderr, then \<^verbatim>\<open>exit(1)\<close>.\<close>

definition fatal_error :: "string \<Rightarrow> world \<Rightarrow> unit step" where
  "fatal_error msg w = exit_with 1 (w\<lparr>stderr := stderr w @ [msg]\<rparr>)"

subsection \<open>The conversions of printf\<close>

definition nl :: char where
  "nl = CHR 0x0A"

fun dec :: "nat \<Rightarrow> string" where
  "dec n = (if n < 10 then [''0123456789'' ! n] else dec (n div 10) @ [''0123456789'' ! (n mod 10)])"

declare dec.simps [simp del]

definition dec_int :: "int \<Rightarrow> string" where
  "dec_int i = (if i < 0 then CHR ''-'' # dec (nat (- i)) else dec (nat i))"

definition padl :: "nat \<Rightarrow> string \<Rightarrow> string" where
  "padl n s = replicate (n - length s) CHR '' '' @ s"

text \<open>\<^verbatim>\<open>"PMD%u %20lu %s\n"\<close>\<close>

definition result_row :: "32 word \<Rightarrow> 64 word \<Rightarrow> string \<Rightarrow> string" where
  "result_row rn rv name =
     ''PMD'' @ dec (unat rn) @ '' '' @ padl 20 (dec (unat rv)) @ '' '' @ name @ [nl]"

subsection \<open>The phases of main\<close>

definition zero_reg :: pfarg_reg_t where
  "zero_reg = \<lparr>reg_num = 0, reg_value = 0\<rparr>"

definition zero_ctx :: pfarg_context_t where
  "zero_ctx = \<lparr>ctx_flags = 0, ctx_cpu_mask = 0\<rparr>"

definition initialize :: "env \<Rightarrow> world \<Rightarrow> unit step" where
  "initialize E w =
     (let ok = pfm_initialize E;
          w = called (Call_pfm_initialize ok) w
      in if \<not> ok then exit_with 1 (printf (''Can't initialize library'' @ [nl]) w)
         else Cont () w)"

definition check_num_events :: "env \<Rightarrow> int \<Rightarrow> world \<Rightarrow> unit step" where
  "check_num_events E argc w =
     (let n = pfm_get_num_counters E;
          w = called (Call_pfm_get_num_counters n) w
      in if argc - 1 > n then exit_with 1 (printf (''Too many events specified'' @ [nl]) w)
         else Cont () w)"

text \<open>
  The loop of lines 113-117: \<open>p\<close> walks the NULL-terminated name array, \<open>i\<close> counts.
  The library stores the descriptor through \<^verbatim>\<open>evt.pfp_evt+i\<close>; a store past the
  end of the array is a \<open>Fault\<close>.
\<close>

fun find_events :: "env \<Rightarrow> string list \<Rightarrow> nat \<Rightarrow> int list \<Rightarrow> world \<Rightarrow> (nat \<times> int list) step" where
  "find_events E [] i evts w = Cont (i, evts) w"
| "find_events E (p # ps) i evts w =
     (let r = pfm_find_event E p;
          w = called (Call_pfm_find_event p i r) w
      in case r of
           None \<Rightarrow> then_step (fatal_error (''Cannot find '' @ p @ '' event'' @ [nl]) w)
                     (\<lambda>_ w. find_events E ps (i + 1) evts w)
         | Some ev \<Rightarrow>
             if i < length evts then find_events E ps (i + 1) (evts[i := ev]) w
             else Fault w)"

definition dispatch_events ::
  "env \<Rightarrow> pfmlib_param_t \<Rightarrow> pfarg_reg_t list \<Rightarrow> int \<Rightarrow> world \<Rightarrow> (pfarg_reg_t list \<times> int) step" where
  "dispatch_events E evt pc cnt w =
     (let r = pfm_dispatch_events E evt pc cnt;
          w = called (Call_pfm_dispatch_events evt pc cnt r) w
      in case r of
           Inl ret \<Rightarrow>
             then_step
               (fatal_error (''cannot configure events: '' @ pfm_strerror E ret @ [nl])
                  (called (Call_pfm_strerror ret) w))
               (\<lambda>_ w. Cont (pc, cnt) w)
         | Inr (pc', cnt') \<Rightarrow> Cont (pc', cnt') w)"

definition create_context :: "env \<Rightarrow> int \<Rightarrow> pfarg_context_t list \<Rightarrow> world \<Rightarrow> unit step" where
  "create_context E pid ctx w =
     (let r = perfmonctl E pid PFM_CREATE_CONTEXT (Arg_ctx ctx) 1;
          w = called (Call_perfmonctl pid PFM_CREATE_CONTEXT (Arg_ctx ctx) 1 r) w
      in case r of
           None \<Rightarrow> Cont () w
         | Some errno \<Rightarrow>
             then_step
               (if errno = ENOSYS
                then fatal_error
                       (''Your kernel does not have performance monitoring support!'' @ [nl]) w
                else Cont () w)
               (\<lambda>_ w. fatal_error (''Can't create PFM context '' @ strerror E errno @ [nl])
                         (called (Call_strerror errno) w)))"

text \<open>
  The shape shared by the other calls: \<^verbatim>\<open>if (perfmonctl(pid, cmd, arg, n) == -1)
  fatal_error(fmt, errno);\<close> with \<^verbatim>\<open>%d\<close> the last conversion of \<open>fmt\<close>.
\<close>

definition checked_perfmonctl ::
  "env \<Rightarrow> int \<Rightarrow> pfm_cmd \<Rightarrow> perfmon_arg \<Rightarrow> int \<Rightarrow> string \<Rightarrow> world \<Rightarrow> unit step" where
  "checked_perfmonctl E pid cmd arg n fmt w =
     (let r = perfmonctl E pid cmd arg n;
          w = called (Call_perfmonctl pid cmd arg n r) w
      in case r of
           None \<Rightarrow> Cont () w
         | Some errno \<Rightarrow> fatal_error (fmt @ dec_int errno @ [nl]) w)"

text \<open>
  Lines 190-192: \<^verbatim>\<open>pd[i].reg_num = pc[i].reg_num\<close> for \<open>i < count\<close>. An index past
  the end of either array is a \<open>Fault\<close>.
\<close>

fun fill_pd :: "pfarg_reg_t list \<Rightarrow> pfarg_reg_t list \<Rightarrow> nat \<Rightarrow> nat \<Rightarrow> pfarg_reg_t list option" where
  "fill_pd pc pd i 0 = Some pd"
| "fill_pd pc pd i (Suc k) =
     (if i < length pc \<and> i < length pd
      then fill_pd pc (pd[i := (pd ! i)\<lparr>reg_num := reg_num (pc ! i)\<rparr>]) (i + 1) k
      else None)"

definition prepare_pd ::
  "pfmlib_param_t \<Rightarrow> pfarg_reg_t list \<Rightarrow> pfarg_reg_t list \<Rightarrow> world \<Rightarrow> pfarg_reg_t list step" where
  "prepare_pd evt pc pd w =
     (case fill_pd pc pd 0 (pfp_count evt) of None \<Rightarrow> Fault w | Some pd' \<Rightarrow> Cont pd' w)"

text \<open>
  Lines 230-233. On success the kernel has stored the current value of each of the
  first \<open>n\<close> registers named in \<open>pd\<close> and left the register numbers alone (the
  contract of \<open>read\<close> in section 4.3 of the specification; the kernel is not part
  of the source). The \<^verbatim>\<open>return -1\<close> after \<^verbatim>\<open>fatal_error\<close> is kept as the source
  has it.
\<close>

definition read_pmds :: "env \<Rightarrow> int \<Rightarrow> pfarg_reg_t list \<Rightarrow> nat \<Rightarrow> world \<Rightarrow> pfarg_reg_t list step" where
  "read_pmds E pid pd n w =
     (let r = perfmonctl E pid PFM_READ_PMDS (Arg_regs pd) (int n);
          w = called (Call_perfmonctl pid PFM_READ_PMDS (Arg_regs pd) (int n) r) w
      in case r of
           None \<Rightarrow>
             Cont (map (\<lambda>d. d\<lparr>reg_value := pmd_value E (reg_num d)\<rparr>) (take n pd) @ drop n pd) w
         | Some errno \<Rightarrow>
             then_step (fatal_error (''perfmonctl error READ_PMDS errno '' @ dec_int errno @ [nl]) w)
               (\<lambda>_ w. return_from_main (- 1) w))"

text \<open>Lines 243-250, one iteration and the loop.\<close>

definition print_row :: "env \<Rightarrow> pfmlib_param_t \<Rightarrow> pfarg_reg_t list \<Rightarrow> nat \<Rightarrow> world \<Rightarrow> world" where
  "print_row E evt pd i w =
     (let ev = pfp_evt evt ! i;
          name = pfm_get_event_name E ev;
          w = called (Call_pfm_get_event_name ev) w
      in printf (result_row (reg_num (pd ! i)) (reg_value (pd ! i)) name) w)"

definition print_results :: "env \<Rightarrow> pfmlib_param_t \<Rightarrow> pfarg_reg_t list \<Rightarrow> world \<Rightarrow> world" where
  "print_results E evt pd w = fold (print_row E evt pd) [0..<pfp_count evt] w"

text \<open>
  Lines 134-259 of \<^verbatim>\<open>main\<close>: from the call of \<^verbatim>\<open>pfm_dispatch_events\<close> to the
  final \<^verbatim>\<open>return 0\<close>, with \<open>evt\<close> as lines 113-132 have filled it. The arrays
  \<open>pc\<close>, \<open>pd\<close> and \<open>ctx\<close> are still as the \<^verbatim>\<open>memset\<close> calls of lines 98-100
  left them.
\<close>

definition monitor :: "env \<Rightarrow> int \<Rightarrow> pfmlib_param_t \<Rightarrow> world \<Rightarrow> int step" where
  "monitor E pid evt w =
     (let pc = replicate (PMU_MAX_PMCS E) zero_reg;
          pd = replicate (PMU_MAX_PMDS E) zero_reg;
          ctx = [zero_ctx];
          cnt = int (PMU_MAX_PMCS E)
      in
      then_step (dispatch_events E evt pc cnt w) (\<lambda>(pc, cnt) w.
      let ctx = ctx[0 := (ctx ! 0)\<lparr>ctx_flags := PFM_FL_INHERIT_NONE E OR PFM_FL_SYSTEM_WIDE E\<rparr>];
          ctx = ctx[0 := (ctx ! 0)\<lparr>ctx_cpu_mask := push_bit WHICH_CPU 1\<rparr>]
      in
      then_step (create_context E pid ctx w) (\<lambda>_ w.
      then_step (checked_perfmonctl E pid PFM_ENABLE Arg_null 0
                   ''child: perfmonctl error PFM_ENABLE errno '' w) (\<lambda>_ w.
      then_step (prepare_pd evt pc pd w) (\<lambda>pd w.
      then_step (checked_perfmonctl E pid PFM_WRITE_PMCS (Arg_regs pc) cnt
                   ''child: perfmonctl error PFM_WRITE_PMCS errno '' w) (\<lambda>_ w.
      then_step (checked_perfmonctl E pid PFM_WRITE_PMDS (Arg_regs pd) (int (pfp_count evt))
                   ''child: perfmonctl error PFM_WRITE_PMDS errno '' w) (\<lambda>_ w.
      then_step (checked_perfmonctl E pid PFM_START Arg_null 0
                   ''child: perfmonctl error PFM_WRITE_PMCS errno '' w) (\<lambda>_ w.
      let w = printf (''<Press a key to stop monitoring>'' @ [nl]) w;
          w = called Call_getchar w
      in
      then_step (checked_perfmonctl E pid PFM_STOP Arg_null 0
                   ''child: perfmonctl error PFM_WRITE_PMCS errno '' w) (\<lambda>_ w.
      let w = printf (''<Monitoring stopped on CPU'' @ dec_int (int WHICH_CPU) @ ''>'' @ [nl, nl]) w
      in
      then_step (read_pmds E pid pd (pfp_count evt) w) (\<lambda>pd w.
      let w = print_results E evt pd w
      in
      then_step (checked_perfmonctl E pid PFM_DESTROY_CONTEXT Arg_null 0
                   ''child: perfmonctl error PFM_DESTROY errno '' w) (\<lambda>_ w.
      return_from_main 0 w)))))))))))"

text \<open>
  Lines 62-132 of \<^verbatim>\<open>main\<close>, then \<open>monitor\<close>. \<open>argv\<close> is the whole argument
  vector, \<^verbatim>\<open>argv[0]\<close> included, so \<^verbatim>\<open>argc\<close> is its length; \<^verbatim>\<open>argv+1\<close> is its tail.
\<close>

definition main :: "env \<Rightarrow> string list \<Rightarrow> int step" where
  "main E argv =
     (let argc = int (length argv);
          pid = getpid E;
          w = called Call_getpid \<lparr>calls = [], stdout = [], stderr = []\<rparr>
      in
      then_step (initialize E w) (\<lambda>_ w.
      then_step (check_num_events E argc w) (\<lambda>_ w.
      let w = called (Call_pfm_set_options 0) w;
          evts = replicate (pfp_evt_len E) 0;
          p = (if argc > 1 then tl argv else event_list)
      in
      then_step (find_events E p 0 evts w) (\<lambda>(i, evts) w.
      let evt = \<lparr>pfp_evt = evts, pfp_count = i, pfp_dfl_plm = PFM_PLM0 E, pfp_pm = 1\<rparr>
      in monitor E pid evt w))))"

definition exit_status :: "'a step \<Rightarrow> int option" where
  "exit_status r = (case r of Exit s w \<Rightarrow> Some s | Fault w \<Rightarrow> None | Cont a w \<Rightarrow> None)"

definition final_world :: "'a step \<Rightarrow> world" where
  "final_world r = (case r of Exit s w \<Rightarrow> w | Fault w \<Rightarrow> w | Cont a w \<Rightarrow> w)"

section \<open>Reading a run\<close>

text \<open>The names the run resolves: line 111.\<close>

definition requested :: "string list \<Rightarrow> string list" where
  "requested argv = (if 1 < length argv then tl argv else event_list)"

text \<open>The \<^verbatim>\<open>perfmonctl\<close> commands of a log, in the order issued.\<close>

fun ops_of :: "call list \<Rightarrow> pfm_cmd list" where
  "ops_of [] = []"
| "ops_of (Call_perfmonctl pid cmd arg n r # cs) = cmd # ops_of cs"
| "ops_of (c # cs) = ops_of cs"

definition protocol :: "pfm_cmd list" where
  "protocol = [PFM_CREATE_CONTEXT, PFM_ENABLE, PFM_WRITE_PMCS, PFM_WRITE_PMDS,
               PFM_START, PFM_STOP, PFM_READ_PMDS, PFM_DESTROY_CONTEXT]"

text \<open>
  A logged call that sends the program to \<^verbatim>\<open>fatal_error\<close> or \<^verbatim>\<open>exit(1)\<close>: a
  collaborator reported failure, or the count of line 85 was exceeded.
\<close>

fun failed :: "int \<Rightarrow> call \<Rightarrow> bool" where
  "failed argc (Call_pfm_initialize ok) = (\<not> ok)"
| "failed argc (Call_pfm_get_num_counters n) = (argc - 1 > n)"
| "failed argc (Call_pfm_find_event p i r) = (r = None)"
| "failed argc (Call_pfm_dispatch_events evt pc cnt r) = (case r of Inl ret \<Rightarrow> True | Inr x \<Rightarrow> False)"
| "failed argc (Call_perfmonctl pid cmd arg n r) = (r \<noteq> None)"
| "failed argc c = False"

fun is_find :: "call \<Rightarrow> bool" where
  "is_find (Call_pfm_find_event p i r) = True"
| "is_find c = False"

fun is_dispatch :: "call \<Rightarrow> bool" where
  "is_dispatch (Call_pfm_dispatch_events evt pc cnt r) = True"
| "is_dispatch c = False"

fun is_perfmonctl :: "call \<Rightarrow> bool" where
  "is_perfmonctl (Call_perfmonctl pid cmd arg n r) = True"
| "is_perfmonctl c = False"

text \<open>The number of bits set in a word.\<close>

definition bits_set :: "'a::len word \<Rightarrow> nat" where
  "bits_set x = length (filter (bit x) [0..<LENGTH('a)])"

text \<open>A create-context call binds one CPU: one context, one bit in its mask.\<close>

fun one_cpu :: "call \<Rightarrow> bool" where
  "one_cpu (Call_perfmonctl pid PFM_CREATE_CONTEXT arg n r) =
     (case arg of
        Arg_ctx [ctx] \<Rightarrow>
          n = 1 \<and> ctx_cpu_mask ctx = push_bit WHICH_CPU 1 \<and> bits_set (ctx_cpu_mask ctx) = 1
      | _ \<Rightarrow> False)"
| "one_cpu c = True"

text \<open>The world when \<^verbatim>\<open>main\<close> starts, and when the loop of line 113 starts.\<close>

text \<open>The parameter block that lines 113-132 build when every name resolves.\<close>

definition request_param :: "env \<Rightarrow> string list \<Rightarrow> pfmlib_param_t" where
  "request_param E argv =
     \<lparr>pfp_evt = map (the \<circ> pfm_find_event E) (requested argv)
                @ replicate (pfp_evt_len E - length (requested argv)) 0,
      pfp_count = length (requested argv),
      pfp_dfl_plm = PFM_PLM0 E,
      pfp_pm = 1\<rparr>"

text \<open>The log and the output of a run in which every call succeeds.\<close>

definition success_calls ::
  "env \<Rightarrow> string list \<Rightarrow> pfarg_reg_t list \<Rightarrow> int \<Rightarrow> pfarg_reg_t list \<Rightarrow> call list" where
  "success_calls E argv pc cnt pd =
     [Call_getpid, Call_pfm_initialize True, Call_pfm_get_num_counters (pfm_get_num_counters E),
      Call_pfm_set_options 0] @
     map (\<lambda>(k, p). Call_pfm_find_event p k (pfm_find_event E p))
       (zip [0..<length (requested argv)] (requested argv)) @
     [Call_pfm_dispatch_events (request_param E argv) (replicate (PMU_MAX_PMCS E) zero_reg)
        (int (PMU_MAX_PMCS E)) (Inr (pc, cnt)),
      Call_perfmonctl (getpid E) PFM_CREATE_CONTEXT
        (Arg_ctx [\<lparr>ctx_flags = PFM_FL_INHERIT_NONE E OR PFM_FL_SYSTEM_WIDE E,
                   ctx_cpu_mask = push_bit WHICH_CPU 1\<rparr>]) 1 None,
      Call_perfmonctl (getpid E) PFM_ENABLE Arg_null 0 None,
      Call_perfmonctl (getpid E) PFM_WRITE_PMCS (Arg_regs pc) cnt None,
      Call_perfmonctl (getpid E) PFM_WRITE_PMDS (Arg_regs pd) (int (length (requested argv))) None,
      Call_perfmonctl (getpid E) PFM_START Arg_null 0 None,
      Call_getchar,
      Call_perfmonctl (getpid E) PFM_STOP Arg_null 0 None,
      Call_perfmonctl (getpid E) PFM_READ_PMDS (Arg_regs pd) (int (length (requested argv))) None] @
     map (\<lambda>i. Call_pfm_get_event_name (pfp_evt (request_param E argv) ! i))
       [0..<length (requested argv)] @
     [Call_perfmonctl (getpid E) PFM_DESTROY_CONTEXT Arg_null 0 None]"

definition success_stdout :: "env \<Rightarrow> string list \<Rightarrow> pfarg_reg_t list \<Rightarrow> string list" where
  "success_stdout E argv pd =
     [''<Press a key to stop monitoring>'' @ [nl],
      ''<Monitoring stopped on CPU'' @ dec_int (int WHICH_CPU) @ ''>'' @ [nl, nl]] @
     map (\<lambda>i. result_row (reg_num (pd ! i)) (pmd_value E (reg_num (pd ! i)))
                (pfm_get_event_name E (pfp_evt (request_param E argv) ! i)))
       [0..<length (requested argv)]"

definition start_world :: world where
  "start_world = called Call_getpid \<lparr>calls = [], stdout = [], stderr = []\<rparr>"

definition found_world :: "env \<Rightarrow> world" where
  "found_world E = called (Call_pfm_set_options 0)
     (called (Call_pfm_get_num_counters (pfm_get_num_counters E))
       (called (Call_pfm_initialize True) start_world))"

section \<open>The resolver and the allocator of the specification\<close>

text \<open>
  \<^verbatim>\<open>pfm_find_event\<close> and \<^verbatim>\<open>pfm_dispatch_events\<close> belong to the pfm library, whose
  code is not in \<^verbatim>\<open>syst.c\<close>. What they return is taken from sections 4.1, 4.2 and 7
  of the specification.
\<close>

datatype error =
    UnknownEvent
  | TooManyEvents
  | UnsatisfiableConstraint
  | InvalidAssignment
  | PermissionDenied
  | UnsupportedPlatform
  | ResourceExhausted
  | InvalidState

type_synonym event_descriptor = int

text \<open>
  Modelled from the spec: \<^verbatim>\<open>pfm_find_event\<close>, the Event Resolver of section 4.1.
  The catalog is a fixed table from names to descriptors; a name that matches no
  entry fails with \<open>UnknownEvent\<close>.
\<close>

definition resolve :: "(string \<times> event_descriptor) list \<Rightarrow> string \<Rightarrow> error + event_descriptor" where
  "resolve catalog name =
     (case map_of catalog name of None \<Rightarrow> Inl UnknownEvent | Some d \<Rightarrow> Inr d)"

text \<open>The answer of \<^verbatim>\<open>pfm_find_event\<close> in a library that resolves by \<open>resolve\<close>.\<close>

definition find_in :: "(string \<times> event_descriptor) list \<Rightarrow> string \<Rightarrow> int option" where
  "find_in catalog name = (case resolve catalog name of Inl e \<Rightarrow> None | Inr d \<Rightarrow> Some d)"

record policy =
  privilege_level :: nat
  system_wide :: bool

record counter_assignment =
  event :: event_descriptor
  register_index :: nat
  control :: policy

text \<open>
  The platform: its counter capacity (the physical counter registers are the indices
  below it) and, for each event, which registers may host it.
\<close>

record platform =
  capacity :: nat
  eligible :: "event_descriptor \<Rightarrow> nat \<Rightarrow> bool"

text \<open>
  Modelled from the spec: the placement loop of \<^verbatim>\<open>pfm_dispatch_events\<close>, the Counter
  Allocator of section 4.2, whose code is not in \<^verbatim>\<open>syst.c\<close>. First fit in request
  order: each event takes the lowest free register of its eligibility set; an event
  with no eligible free register fails with \<open>UnsatisfiableConstraint\<close>.
\<close>

fun first_fit ::
  "(event_descriptor \<Rightarrow> nat \<Rightarrow> bool) \<Rightarrow> policy \<Rightarrow> nat list \<Rightarrow> event_descriptor list
     \<Rightarrow> error + counter_assignment list" where
  "first_fit el pol free [] = Inr []"
| "first_fit el pol free (e # es) =
     (case filter (el e) free of
        [] \<Rightarrow> Inl UnsatisfiableConstraint
      | r # _ \<Rightarrow>
          (case first_fit el pol (remove1 r free) es of
             Inl err \<Rightarrow> Inl err
           | Inr as \<Rightarrow> Inr (\<lparr>event = e, register_index = r, control = pol\<rparr> # as)))"

text \<open>
  Modelled from the spec: \<^verbatim>\<open>pfm_dispatch_events\<close> as a whole, the contract
  \<open>allocate\<close> of section 4.2. A request larger than the capacity fails with
  \<open>TooManyEvents\<close>; otherwise the events are placed first fit on the registers
  below the capacity.
\<close>

definition allocate :: "platform \<Rightarrow> event_descriptor list \<Rightarrow> policy \<Rightarrow> error + counter_assignment list" where
  "allocate hw events pol =
     (if capacity hw < length events then Inl TooManyEvents
      else first_fit (eligible hw) pol [0..<capacity hw] events)"

text \<open>
  Modelled from the spec: a placement conflict, in the words of section 4.2: some
  event, when its turn comes, cannot be placed on any remaining free register.
\<close>

fun placement_conflict ::
  "(event_descriptor \<Rightarrow> nat \<Rightarrow> bool) \<Rightarrow> nat list \<Rightarrow> event_descriptor list \<Rightarrow> bool" where
  "placement_conflict el free [] = False"
| "placement_conflict el free (e # es) =
     (case filter (el e) free of
        [] \<Rightarrow> True
      | r # _ \<Rightarrow> placement_conflict el (remove1 r free) es)"

section \<open>Concrete environments\<close>

text \<open>
  A platform with four counters, PMD4 to PMD7, and a library that knows the two
  events of the built-in list and hands out the counters from PMD7 downwards.
\<close>

definition demo_catalog :: "(string \<times> event_descriptor) list" where
  "demo_catalog = [(''cpu_cycles'', 18), (''IA64_INST_RETIRED'', 8)]"

definition demo_dispatch ::
  "pfmlib_param_t \<Rightarrow> pfarg_reg_t list \<Rightarrow> int \<Rightarrow> int + pfarg_reg_t list \<times> int" where
  "demo_dispatch evt pc cnt =
     Inr (map2 (\<lambda>r ev. \<lparr>reg_num = r, reg_value = word_of_int ev\<rparr>)
            (take (pfp_count evt) [7, 6, 5, 4]) (take (pfp_count evt) (pfp_evt evt))
            @ drop (pfp_count evt) pc,
          int (pfp_count evt))"

definition demo_env :: env where
  "demo_env = \<lparr>
     getpid = 4242,
     pfm_initialize = True,
     pfm_get_num_counters = 4,
     pfm_find_event = find_in demo_catalog,
     pfm_dispatch_events = demo_dispatch,
     pfm_strerror = (\<lambda>ret. ''event set not supported''),
     pfm_get_event_name = (\<lambda>ev. if ev = 18 then ''CPU_CYCLES'' else ''IA64_INST_RETIRED''),
     perfmonctl = (\<lambda>pid cmd arg n. None),
     pmd_value = (\<lambda>r. if r = 7 then 123456 else 789),
     strerror = (\<lambda>e. ''Operation not permitted''),
     PMU_MAX_PMCS = 4,
     PMU_MAX_PMDS = 4,
     pfp_evt_len = 4,
     PFM_PLM0 = 1,
     PFM_FL_INHERIT_NONE = 0,
     PFM_FL_SYSTEM_WIDE = 8\<rparr>"

text \<open>
  The same library on a platform that reports a single counter, once turning the
  request for two events down and once accepting it.
\<close>

definition one_counter_env :: env where
  "one_counter_env = demo_env\<lparr>pfm_get_num_counters := 1,
     pfm_dispatch_events := (\<lambda>evt pc cnt. Inl (- 1))\<rparr>"

definition lenient_env :: env where
  "lenient_env = demo_env\<lparr>pfm_get_num_counters := 1\<rparr>"

text \<open>The four-counter platform with a library that fails to initialise.\<close>

definition uninitialised_env :: env where
  "uninitialised_env = demo_env\<lparr>pfm_initialize := False\<rparr>"

text \<open>The four-counter platform with a kernel that refuses to read the counters.\<close>

definition read_fails_env :: env where
  "read_fails_env = demo_env\<lparr>perfmonctl :=
     (\<lambda>pid cmd arg n. if cmd = PFM_READ_PMDS then Some 22 else None)\<rparr>"

text \<open>
  A platform for the allocator of the specification: four registers; event 18 may sit
  anywhere, every other event only on registers 0 and 1.
\<close>

definition demo_platform :: platform where
  "demo_platform = \<lparr>capacity = 4, eligible = (\<lambda>e r. e = 18 \<or> r < 2)\<rparr>"

definition demo_policy :: policy where
  "demo_policy = \<lparr>privilege_level = 0, system_wide = True\<rparr>"

section \<open>Lemmas on the phases\<close>

lemma then_step_simps [simp]:
  "then_step (Exit s w) f = Exit s w"
  "then_step (Fault w) f = Fault w"
  "then_step (Cont a w) f = f a w"
  by (simp_all add: then_step_def)

lemma fatal_error_eq [simp]: "fatal_error msg w = Exit 1 (w\<lparr>stderr := stderr w @ [msg]\<rparr>)"
  by (simp add: fatal_error_def exit_with_def)

lemma final_world_simps [simp]:
  "final_world (Exit s w) = w" "final_world (Fault w) = w" "final_world (Cont a w) = w"
  by (simp_all add: final_world_def)

lemma exit_status_simps [simp]:
  "exit_status (Exit s w) = Some s" "exit_status (Fault w) = None" "exit_status (Cont a w) = None"
  by (simp_all add: exit_status_def)

lemmas stage_defs = initialize_def check_num_events_def dispatch_events_def create_context_def
  checked_perfmonctl_def prepare_pd_def read_pmds_def print_results_def return_from_main_def
  exit_with_def

subsection \<open>The loop that resolves the names\<close>

lemma find_events_calls:
  "\<exists>cs. calls (final_world (find_events E ps i evts w)) = calls w @ cs \<and> (\<forall>c\<in>set cs. is_find c)"
proof (induction ps arbitrary: i evts w)
  case Nil
  then show ?case by simp
next
  case (Cons p ps)
  show ?case
  proof (cases "pfm_find_event E p")
    case None
    then show ?thesis by (simp add: called_def Let_def)
  next
    case (Some ev)
    show ?thesis
    proof (cases "i < length evts")
      case True
      let ?w = "called (Call_pfm_find_event p i (Some ev)) w"
      obtain cs where "calls (final_world (find_events E ps (i + 1) (evts[i := ev]) ?w)) = calls ?w @ cs"
        and "\<forall>c\<in>set cs. is_find c"
        using Cons.IH by blast
      then show ?thesis using Some True
        by (auto simp: called_def Let_def intro!: exI [of _ "Call_pfm_find_event p i (Some ev) # cs"])
    next
      case False
      then show ?thesis using Some by (simp add: called_def Let_def)
    qed
  qed
qed

lemma find_events_Cont:
  "find_events E ps i evts w = Cont (n, evts') w' \<Longrightarrow>
     n = i + length ps \<and> (ps \<noteq> [] \<longrightarrow> n \<le> length evts) \<and>
     (\<forall>p\<in>set ps. pfm_find_event E p \<noteq> None) \<and>
     evts' = take i evts @ map (the \<circ> pfm_find_event E) ps @ drop n evts \<and>
     calls w' = calls w @ map (\<lambda>(k, p). Call_pfm_find_event p k (pfm_find_event E p)) (zip [i..<n] ps) \<and>
     stdout w' = stdout w \<and> stderr w' = stderr w"
proof (induction ps arbitrary: i evts w)
  case Nil
  then show ?case by simp
next
  case (Cons p ps)
  from Cons.prems obtain ev where ev: "pfm_find_event E p = Some ev" and i: "i < length evts"
    and rec: "find_events E ps (i + 1) (evts[i := ev]) (called (Call_pfm_find_event p i (Some ev)) w)
                = Cont (n, evts') w'"
    by (auto simp: Let_def split: option.splits if_splits)
  note IH = Cons.IH [OF rec]
  have n: "n = i + length (p # ps)" using IH by simp
  have "take (i + 1) (evts[i := ev]) = take i evts @ [ev]"
    using i by (simp add: take_Suc_conv_app_nth)
  moreover have "drop n (evts[i := ev]) = drop n evts" using n by simp
  moreover have "i < n" using n by simp
  then have "[i..<n] = i # [i + 1..<n]" by (metis upt_conv_Cons Suc_eq_plus1)
  ultimately show ?case using IH ev i n
    by (auto simp: called_def)
qed

lemma find_events_Exit:
  "find_events E ps i evts w = Exit s w' \<Longrightarrow>
     s = 1 \<and> stdout w' = stdout w \<and>
     (\<exists>p\<in>set ps. pfm_find_event E p = None \<and>
        stderr w' = stderr w @ [''Cannot find '' @ p @ '' event'' @ [nl]] \<and>
        (\<exists>k. Call_pfm_find_event p k None \<in> set (calls w')))"
proof (induction ps arbitrary: i evts w)
  case Nil
  then show ?case by simp
next
  case (Cons p ps)
  show ?case
  proof (cases "pfm_find_event E p")
    case None
    then show ?thesis using Cons.prems by (auto simp: called_def Let_def)
  next
    case (Some ev)
    then have "find_events E ps (i + 1) (evts[i := ev]) (called (Call_pfm_find_event p i (Some ev)) w)
                 = Exit s w'"
      using Cons.prems by (auto simp: Let_def split: if_splits)
    from Cons.IH [OF this] show ?thesis by (auto simp: called_def)
  qed
qed

lemma find_events_Fault:
  "find_events E ps i evts w = Fault w' \<Longrightarrow>
     length evts < i + length ps \<and> (\<forall>c\<in>set (calls w') - set (calls w). \<not> failed argc c)"
proof (induction ps arbitrary: i evts w)
  case Nil
  then show ?case by simp
next
  case (Cons p ps)
  from Cons.prems obtain ev where ev: "pfm_find_event E p = Some ev"
    by (auto simp: Let_def split: option.splits)
  let ?w = "called (Call_pfm_find_event p i (Some ev)) w"
  show ?case
  proof (cases "i < length evts")
    case True
    then have "find_events E ps (i + 1) (evts[i := ev]) ?w = Fault w'"
      using Cons.prems ev by (simp add: Let_def)
    from Cons.IH [OF this] show ?thesis by (auto simp: called_def)
  next
    case False
    then have "w' = ?w" using Cons.prems ev by (simp add: Let_def)
    then show ?thesis using False by (auto simp: called_def)
  qed
qed

lemma find_events_unknown:
  assumes "p \<in> set ps" "pfm_find_event E p = None"
  shows "find_events E ps i evts w \<noteq> Cont x w'"
proof
  assume "find_events E ps i evts w = Cont x w'"
  then have "find_events E ps i evts w = Cont (fst x, snd x) w'" by simp
  from find_events_Cont [OF this] have "\<forall>p\<in>set ps. pfm_find_event E p \<noteq> None" by blast
  with assms show False by blast
qed

subsection \<open>The loops over the counters\<close>

lemma fill_pd_Some:
  "fill_pd pc pd i k = Some pd' \<Longrightarrow>
     (0 < k \<longrightarrow> i + k \<le> length pc \<and> i + k \<le> length pd) \<and> length pd' = length pd \<and>
     (\<forall>j<length pd. pd' ! j =
        (if i \<le> j \<and> j < i + k then (pd ! j)\<lparr>reg_num := reg_num (pc ! j)\<rparr> else pd ! j))"
proof (induction k arbitrary: i pd)
  case 0
  then show ?case by auto
next
  case (Suc k)
  from Suc.prems have i: "i < length pc" "i < length pd"
    and rec: "fill_pd pc (pd[i := (pd ! i)\<lparr>reg_num := reg_num (pc ! i)\<rparr>]) (i + 1) k = Some pd'"
    by (auto split: if_splits)
  note IH = Suc.IH [OF rec]
  show ?case using IH i by (auto simp: nth_list_update)
qed

lemma fill_pd_zeroed:
  assumes "fill_pd pc (replicate m zero_reg) 0 k = Some pd"
  shows "(0 < k \<longrightarrow> k \<le> length pc) \<and> k \<le> length pd \<and>
         (\<forall>j<k. reg_num (pd ! j) = reg_num (pc ! j) \<and> reg_value (pd ! j) = 0)"
proof -
  note f = fill_pd_Some [OF assms]
  have k: "k \<le> length pd" using f by (cases k) auto
  moreover have "\<forall>j<k. pd ! j = zero_reg\<lparr>reg_num := reg_num (pc ! j)\<rparr>"
    using f k by auto
  ultimately show ?thesis using f by (auto simp: zero_reg_def)
qed

lemma print_results_calls:
  "calls (fold (print_row E evt pd) is w) =
     calls w @ map (\<lambda>i. Call_pfm_get_event_name (pfp_evt evt ! i)) is"
  by (induction "is" arbitrary: w) (simp_all add: print_row_def Let_def called_def printf_def)

lemma print_results_stdout:
  "stdout (fold (print_row E evt pd) is w) = stdout w @
     map (\<lambda>i. result_row (reg_num (pd ! i)) (reg_value (pd ! i))
                (pfm_get_event_name E (pfp_evt evt ! i))) is"
  by (induction "is" arbitrary: w) (simp_all add: print_row_def Let_def called_def printf_def)

lemma print_results_stderr:
  "stderr (fold (print_row E evt pd) is w) = stderr w"
  by (induction "is" arbitrary: w) (simp_all add: print_row_def Let_def called_def printf_def)

subsection \<open>Reading logs\<close>

lemma ops_of_append: "ops_of (xs @ ys) = ops_of xs @ ops_of ys"
  by (induction xs rule: ops_of.induct) simp_all

lemma ops_of_names [simp]: "ops_of (map (\<lambda>i. Call_pfm_get_event_name (f i)) is) = []"
  by (induction "is") simp_all

lemma ops_of_finds: "\<forall>c\<in>set cs. is_find c \<Longrightarrow> ops_of cs = []"
  by (induction cs rule: ops_of.induct) simp_all

lemma is_find_one_cpu: "is_find c \<Longrightarrow> one_cpu c"
  by (cases c) simp_all

lemma is_find_not_dispatch: "is_find c \<Longrightarrow> \<not> is_dispatch c \<and> \<not> is_perfmonctl c"
  by (cases c) simp_all

lemma bits_set_1: "bits_set (push_bit WHICH_CPU (1 :: 64 word)) = 1"
  by (simp add: bits_set_def WHICH_CPU_def bit_1_iff upt_rec [of 0])

lemma bits_set_pow: "bits_set (2 ^ WHICH_CPU :: 64 word) = Suc 0"
  using bits_set_1 by simp

subsection \<open>The cases of a run\<close>

lemma main_cases [case_names init_failed too_many find_exit find_fault found]:
  obtains
    "\<not> pfm_initialize E"
    "main E argv = Exit 1 (printf (''Can't initialize library'' @ [nl])
                     (called (Call_pfm_initialize False) start_world))"
  | "pfm_initialize E" "int (length argv) - 1 > pfm_get_num_counters E"
    "main E argv = Exit 1 (printf (''Too many events specified'' @ [nl])
                     (called (Call_pfm_get_num_counters (pfm_get_num_counters E))
                       (called (Call_pfm_initialize True) start_world)))"
  | s w where "pfm_initialize E" "int (length argv) - 1 \<le> pfm_get_num_counters E"
    "find_events E (requested argv) 0 (replicate (pfp_evt_len E) 0) (found_world E) = Exit s w"
    "main E argv = Exit s w"
  | w where "pfm_initialize E" "int (length argv) - 1 \<le> pfm_get_num_counters E"
    "find_events E (requested argv) 0 (replicate (pfp_evt_len E) 0) (found_world E) = Fault w"
    "main E argv = Fault w"
  | n evts w where "pfm_initialize E" "int (length argv) - 1 \<le> pfm_get_num_counters E"
    "find_events E (requested argv) 0 (replicate (pfp_evt_len E) 0) (found_world E) = Cont (n, evts) w"
    "main E argv = monitor E (getpid E)
       \<lparr>pfp_evt = evts, pfp_count = n, pfp_dfl_plm = PFM_PLM0 E, pfp_pm = 1\<rparr> w"
proof (cases "pfm_initialize E")
  case False
  then show ?thesis
    by (intro that(1)) (simp_all add: main_def initialize_def Let_def exit_with_def start_world_def)
next
  case init: True
  show ?thesis
  proof (cases "int (length argv) - 1 > pfm_get_num_counters E")
    case True
    then show ?thesis using init
      by (intro that(2))
        (simp_all add: main_def initialize_def check_num_events_def Let_def exit_with_def start_world_def)
  next
    case False
    then have le: "int (length argv) - 1 \<le> pfm_get_num_counters E" by simp
    have m: "main E argv =
        then_step (find_events E (requested argv) 0 (replicate (pfp_evt_len E) 0) (found_world E))
          (\<lambda>(i, evts) w. monitor E (getpid E)
             \<lparr>pfp_evt = evts, pfp_count = i, pfp_dfl_plm = PFM_PLM0 E, pfp_pm = 1\<rparr> w)"
      using init False
      by (simp add: main_def initialize_def check_num_events_def Let_def requested_def
            found_world_def start_world_def)
    show ?thesis
    proof (cases "find_events E (requested argv) 0 (replicate (pfp_evt_len E) 0) (found_world E)")
      case (Exit s w)
      then show ?thesis using init le m by (intro that(3)) simp_all
    next
      case (Fault w)
      then show ?thesis using init le m by (intro that(4)) simp_all
    next
      case (Cont a w)
      then show ?thesis using init le m by (cases a) (auto intro: that(5))
    qed
  qed
qed

lemma found_world_calls:
  "calls (found_world E) =
     [Call_getpid, Call_pfm_initialize True, Call_pfm_get_num_counters (pfm_get_num_counters E),
      Call_pfm_set_options 0]"
  "stdout (found_world E) = []" "stderr (found_world E) = []"
  by (simp_all add: found_world_def start_world_def called_def)

subsection \<open>The monitoring part\<close>

lemma monitor_Exit_0:
  assumes "monitor E pid evt w0 = Exit 0 w"
  shows "\<exists>pc cnt pd.
     pfm_dispatch_events E evt (replicate (PMU_MAX_PMCS E) zero_reg) (int (PMU_MAX_PMCS E)) = Inr (pc, cnt) \<and>
     fill_pd pc (replicate (PMU_MAX_PMDS E) zero_reg) 0 (pfp_count evt) = Some pd \<and>
     calls w = calls w0 @
       [Call_pfm_dispatch_events evt (replicate (PMU_MAX_PMCS E) zero_reg) (int (PMU_MAX_PMCS E)) (Inr (pc, cnt)),
        Call_perfmonctl pid PFM_CREATE_CONTEXT
          (Arg_ctx [\<lparr>ctx_flags = PFM_FL_INHERIT_NONE E OR PFM_FL_SYSTEM_WIDE E,
                     ctx_cpu_mask = push_bit WHICH_CPU 1\<rparr>]) 1 None,
        Call_perfmonctl pid PFM_ENABLE Arg_null 0 None,
        Call_perfmonctl pid PFM_WRITE_PMCS (Arg_regs pc) cnt None,
        Call_perfmonctl pid PFM_WRITE_PMDS (Arg_regs pd) (int (pfp_count evt)) None,
        Call_perfmonctl pid PFM_START Arg_null 0 None,
        Call_getchar,
        Call_perfmonctl pid PFM_STOP Arg_null 0 None,
        Call_perfmonctl pid PFM_READ_PMDS (Arg_regs pd) (int (pfp_count evt)) None] @
       map (\<lambda>i. Call_pfm_get_event_name (pfp_evt evt ! i)) [0..<pfp_count evt] @
       [Call_perfmonctl pid PFM_DESTROY_CONTEXT Arg_null 0 None] \<and>
     stdout w = stdout w0 @
       [''<Press a key to stop monitoring>'' @ [nl],
        ''<Monitoring stopped on CPU'' @ dec_int (int WHICH_CPU) @ ''>'' @ [nl, nl]] @
       map (\<lambda>i. result_row (reg_num (pd ! i)) (pmd_value E (reg_num (pd ! i)))
                  (pfm_get_event_name E (pfp_evt evt ! i))) [0..<pfp_count evt] \<and>
     stderr w = stderr w0"
proof -
  from assms obtain pc cnt where d:
    "pfm_dispatch_events E evt (replicate (PMU_MAX_PMCS E) zero_reg) (int (PMU_MAX_PMCS E)) = Inr (pc, cnt)"
    by (simp add: monitor_def Let_def dispatch_events_def split: sum.splits prod.splits)
  from assms d obtain pd where f:
    "fill_pd pc (replicate (PMU_MAX_PMDS E) zero_reg) 0 (pfp_count evt) = Some pd"
    by (simp add: monitor_def Let_def stage_defs split: option.splits if_splits)
  have len: "pfp_count evt \<le> length pd"
    using fill_pd_zeroed [OF f] by simp
  let ?pd = "map (\<lambda>d. d\<lparr>reg_value := pmd_value E (reg_num d)\<rparr>) (take (pfp_count evt) pd)
               @ drop (pfp_count evt) pd"
  have rows: "map (\<lambda>i. result_row (reg_num (?pd ! i)) (reg_value (?pd ! i))
                     (pfm_get_event_name E (pfp_evt evt ! i))) [0..<pfp_count evt]
     = map (\<lambda>i. result_row (reg_num (pd ! i)) (pmd_value E (reg_num (pd ! i)))
                  (pfm_get_event_name E (pfp_evt evt ! i))) [0..<pfp_count evt]"
    using len by (simp add: nth_append)
  show ?thesis
    using assms d f rows
    by (clarsimp simp add: monitor_def Let_def stage_defs called_def printf_def zero_ctx_def
         print_results_calls print_results_stdout print_results_stderr
        split: option.splits if_splits)
qed

lemma monitor_one_cpu:
  "\<forall>c\<in>set (calls w). one_cpu c \<Longrightarrow>
   \<forall>c\<in>set (calls (final_world (monitor E pid evt w))). one_cpu c"
  by (simp add: monitor_def Let_def stage_defs called_def printf_def bits_set_pow
         print_results_calls zero_ctx_def ball_Un
        split: option.splits sum.splits prod.splits)

lemma monitor_ops_prefix:
  "ops_of (calls w) = [] \<Longrightarrow>
   take (length (ops_of (calls (final_world (monitor E pid evt w))))) protocol
     = ops_of (calls (final_world (monitor E pid evt w)))"
  by (simp add: monitor_def Let_def stage_defs called_def printf_def protocol_def
         print_results_calls ops_of_append
        split: option.splits sum.splits prod.splits)

lemma monitor_status:
  "exit_status (monitor E pid evt w) = Some 0 \<or> exit_status (monitor E pid evt w) = Some 1
     \<or> (\<exists>w'. monitor E pid evt w = Fault w')"
  by (simp add: monitor_def Let_def stage_defs
        split: option.splits sum.splits prod.splits)

lemma monitor_failed:
  "\<forall>c\<in>set (calls w). \<not> failed argc c \<Longrightarrow>
   (exit_status (monitor E pid evt w) = Some 1) =
   (\<exists>c\<in>set (calls (final_world (monitor E pid evt w))). failed argc c)"
  by (simp add: monitor_def Let_def stage_defs called_def printf_def
         print_results_calls bex_Un
        split: option.splits sum.splits prod.splits)

lemma monitor_stdout:
  "stdout w = [] \<Longrightarrow>
   stdout (final_world (monitor E pid evt w)) \<noteq> [''Too many events specified'' @ [nl]]"
  by (simp add: monitor_def Let_def stage_defs called_def printf_def
         print_results_stdout
        split: option.splits sum.splits prod.splits)

subsection \<open>Evaluating concrete runs\<close>

lemma dec_lt10: "n < 10 \<Longrightarrow> dec n = [''0123456789'' ! n]"
  by (simp add: dec.simps)

lemma dec_ge10: "10 \<le> n \<Longrightarrow> dec n = dec (n div 10) @ [''0123456789'' ! (n mod 10)]"
  by (subst dec.simps) simp

lemma fill_pd_numeral:
  "fill_pd pc pd i (numeral k) = fill_pd pc pd i (Suc (pred_numeral k))"
  by (simp add: numeral_eq_Suc)

lemma replicate_numeral: "replicate (numeral k) x = x # replicate (pred_numeral k) x"
  by (simp add: numeral_eq_Suc)

lemmas eval_defs = main_def monitor_def Let_def stage_defs called_def printf_def
  demo_env_def demo_dispatch_def find_in_def resolve_def demo_catalog_def event_list_def
  zero_reg_def zero_ctx_def print_row_def WHICH_CPU_def result_row_def padl_def dec_int_def
  dec_lt10 dec_ge10 fill_pd_numeral replicate_numeral

lemma demo_find:
  "find_events demo_env event_list 0 [0, 0, 0, 0] w =
     Cont (2, [18, 8, 0, 0]) (w\<lparr>calls := calls w @ [Call_pfm_find_event ''cpu_cycles'' 0 (Some 18),
      Call_pfm_find_event ''IA64_INST_RETIRED'' 1 (Some 8)]\<rparr>)"
  by (simp add: eval_defs)

lemma demo_rows:
  "result_row 7 123456 ''CPU_CYCLES'' = ''PMD7               123456 CPU_CYCLES'' @ [nl]"
  "result_row 6 789 ''IA64_INST_RETIRED'' = ''PMD6                  789 IA64_INST_RETIRED'' @ [nl]"
  by (simp_all add: eval_defs)


lemma demo_run:
  "main demo_env [''syst''] = Exit 0
  \<lparr>calls =
     [Call_getpid, Call_pfm_initialize True, Call_pfm_get_num_counters 4,
      Call_pfm_set_options 0,
      Call_pfm_find_event ''cpu_cycles'' 0 (Some 18),
      Call_pfm_find_event ''IA64_INST_RETIRED'' 1 (Some 8),
      Call_pfm_dispatch_events
       \<lparr>pfp_evt = [18, 8, 0, 0], pfp_count = 2, pfp_dfl_plm = 1, pfp_pm = 1\<rparr>
       [\<lparr>reg_num = 0, reg_value = 0\<rparr>, \<lparr>reg_num = 0, reg_value = 0\<rparr>,
        \<lparr>reg_num = 0, reg_value = 0\<rparr>, \<lparr>reg_num = 0, reg_value = 0\<rparr>]
       4 (Inr ([\<lparr>reg_num = 7, reg_value = 18\<rparr>, \<lparr>reg_num = 6, reg_value = 8\<rparr>,
                \<lparr>reg_num = 0, reg_value = 0\<rparr>, \<lparr>reg_num = 0, reg_value = 0\<rparr>],
               2)),
      Call_perfmonctl 4242 PFM_CREATE_CONTEXT
       (Arg_ctx [\<lparr>ctx_flags = 8, ctx_cpu_mask = 1\<rparr>]) 1 None,
      Call_perfmonctl 4242 PFM_ENABLE Arg_null 0 None,
      Call_perfmonctl 4242 PFM_WRITE_PMCS
       (Arg_regs
         [\<lparr>reg_num = 7, reg_value = 18\<rparr>, \<lparr>reg_num = 6, reg_value = 8\<rparr>,
          \<lparr>reg_num = 0, reg_value = 0\<rparr>, \<lparr>reg_num = 0, reg_value = 0\<rparr>])
       2 None,
      Call_perfmonctl 4242 PFM_WRITE_PMDS
       (Arg_regs
         [\<lparr>reg_num = 7, reg_value = 0\<rparr>, \<lparr>reg_num = 6, reg_value = 0\<rparr>,
          \<lparr>reg_num = 0, reg_value = 0\<rparr>, \<lparr>reg_num = 0, reg_value = 0\<rparr>])
       2 None,
      Call_perfmonctl 4242 PFM_START Arg_null 0 None, Call_getchar,
      Call_perfmonctl 4242 PFM_STOP Arg_null 0 None,
      Call_perfmonctl 4242 PFM_READ_PMDS
       (Arg_regs
         [\<lparr>reg_num = 7, reg_value = 0\<rparr>, \<lparr>reg_num = 6, reg_value = 0\<rparr>,
          \<lparr>reg_num = 0, reg_value = 0\<rparr>, \<lparr>reg_num = 0, reg_value = 0\<rparr>])
       2 None,
      Call_pfm_get_event_name 18, Call_pfm_get_event_name 8,
      Call_perfmonctl 4242 PFM_DESTROY_CONTEXT Arg_null 0 None],
     stdout =
       [''<Press a key to stop monitoring>'' @ [nl],
        ''<Monitoring stopped on CPU0>'' @ [nl, nl],
        ''PMD7               123456 CPU_CYCLES'' @ [nl],
        ''PMD6                  789 IA64_INST_RETIRED'' @ [nl]],
     stderr = []\<rparr>"
  by (simp add: eval_defs)

subsection \<open>Whole runs\<close>

lemma main_one_cpu: "\<forall>c\<in>set (calls (final_world (main E argv))). one_cpu c"
proof (cases E argv rule: main_cases)
  case init_failed
  then show ?thesis by (simp add: start_world_def called_def printf_def)
next
  case too_many
  then show ?thesis by (simp add: start_world_def called_def printf_def)
next
  case (find_exit s w)
  with find_events_calls [of E "requested argv" 0 "replicate (pfp_evt_len E) 0" "found_world E"]
  show ?thesis by (auto simp: found_world_calls is_find_one_cpu)
next
  case (find_fault w)
  with find_events_calls [of E "requested argv" 0 "replicate (pfp_evt_len E) 0" "found_world E"]
  show ?thesis by (auto simp: found_world_calls is_find_one_cpu)
next
  case (found n evts w)
  with find_events_calls [of E "requested argv" 0 "replicate (pfp_evt_len E) 0" "found_world E"]
  have "\<forall>c\<in>set (calls w). one_cpu c" by (auto simp: found_world_calls is_find_one_cpu)
  then show ?thesis using found(4) monitor_one_cpu by simp
qed

lemma main_success:
  assumes "exit_status (main E argv) = Some 0"
  obtains pc cnt pd where
    "pfm_initialize E" "int (length argv) - 1 \<le> pfm_get_num_counters E"
    "\<forall>p\<in>set (requested argv). pfm_find_event E p \<noteq> None"
    "requested argv \<noteq> [] \<longrightarrow> length (requested argv) \<le> pfp_evt_len E"
    "pfm_dispatch_events E (request_param E argv) (replicate (PMU_MAX_PMCS E) zero_reg)
       (int (PMU_MAX_PMCS E)) = Inr (pc, cnt)"
    "fill_pd pc (replicate (PMU_MAX_PMDS E) zero_reg) 0 (length (requested argv)) = Some pd"
    "calls (final_world (main E argv)) = success_calls E argv pc cnt pd"
    "stdout (final_world (main E argv)) = success_stdout E argv pd"
    "stderr (final_world (main E argv)) = []"
proof (cases E argv rule: main_cases)
  case init_failed
  then show ?thesis using assms by simp
next
  case too_many
  then show ?thesis using assms by simp
next
  case (find_exit s w)
  then show ?thesis using assms find_events_Exit [OF find_exit(3)] by simp
next
  case (find_fault w)
  then show ?thesis using assms by simp
next
  case (found n evts w)
  note fc = find_events_Cont [OF found(3)]
  have n: "n = length (requested argv)" using fc by simp
  have evts: "evts = pfp_evt (request_param E argv)"
    using fc n by (simp add: request_param_def)
  have evt: "\<lparr>pfp_evt = evts, pfp_count = n, pfp_dfl_plm = PFM_PLM0 E, pfp_pm = 1\<rparr> = request_param E argv"
    using evts n by (simp add: request_param_def)
  from assms found(4) evt obtain w' where m: "monitor E (getpid E) (request_param E argv) w = Exit 0 w'"
    by (cases "monitor E (getpid E) (request_param E argv) w") auto
  then have fw: "final_world (main E argv) = w'" using found(4) evt by simp
  from monitor_Exit_0 [OF m] obtain pc cnt pd where
    d: "pfm_dispatch_events E (request_param E argv) (replicate (PMU_MAX_PMCS E) zero_reg)
         (int (PMU_MAX_PMCS E)) = Inr (pc, cnt)"
    and f: "fill_pd pc (replicate (PMU_MAX_PMDS E) zero_reg) 0 (pfp_count (request_param E argv)) = Some pd"
    and c: "calls w' = calls w @
       [Call_pfm_dispatch_events (request_param E argv) (replicate (PMU_MAX_PMCS E) zero_reg)
          (int (PMU_MAX_PMCS E)) (Inr (pc, cnt)),
        Call_perfmonctl (getpid E) PFM_CREATE_CONTEXT
          (Arg_ctx [\<lparr>ctx_flags = PFM_FL_INHERIT_NONE E OR PFM_FL_SYSTEM_WIDE E,
                     ctx_cpu_mask = push_bit WHICH_CPU 1\<rparr>]) 1 None,
        Call_perfmonctl (getpid E) PFM_ENABLE Arg_null 0 None,
        Call_perfmonctl (getpid E) PFM_WRITE_PMCS (Arg_regs pc) cnt None,
        Call_perfmonctl (getpid E) PFM_WRITE_PMDS (Arg_regs pd) (int (pfp_count (request_param E argv))) None,
        Call_perfmonctl (getpid E) PFM_START Arg_null 0 None,
        Call_getchar,
        Call_perfmonctl (getpid E) PFM_STOP Arg_null 0 None,
        Call_perfmonctl (getpid E) PFM_READ_PMDS (Arg_regs pd) (int (pfp_count (request_param E argv))) None] @
       map (\<lambda>i. Call_pfm_get_event_name (pfp_evt (request_param E argv) ! i))
         [0..<pfp_count (request_param E argv)] @
       [Call_perfmonctl (getpid E) PFM_DESTROY_CONTEXT Arg_null 0 None]"
    and so: "stdout w' = stdout w @
       [''<Press a key to stop monitoring>'' @ [nl],
        ''<Monitoring stopped on CPU'' @ dec_int (int WHICH_CPU) @ ''>'' @ [nl, nl]] @
       map (\<lambda>i. result_row (reg_num (pd ! i)) (pmd_value E (reg_num (pd ! i)))
                  (pfm_get_event_name E (pfp_evt (request_param E argv) ! i)))
         [0..<pfp_count (request_param E argv)]"
    and se: "stderr w' = stderr w"
    by blast
  have cnt: "pfp_count (request_param E argv) = length (requested argv)"
    by (simp add: request_param_def)
  show ?thesis
  proof (rule that [of pc cnt pd])
    show "pfm_initialize E" by (rule found(1))
    show "int (length argv) - 1 \<le> pfm_get_num_counters E" by (rule found(2))
    show "\<forall>p\<in>set (requested argv). pfm_find_event E p \<noteq> None" using fc by blast
    show "requested argv \<noteq> [] \<longrightarrow> length (requested argv) \<le> pfp_evt_len E" using fc by auto
    show "pfm_dispatch_events E (request_param E argv) (replicate (PMU_MAX_PMCS E) zero_reg)
       (int (PMU_MAX_PMCS E)) = Inr (pc, cnt)" by (rule d)
    show "fill_pd pc (replicate (PMU_MAX_PMDS E) zero_reg) 0 (length (requested argv)) = Some pd"
      using f cnt by simp
    show "stderr (final_world (main E argv)) = []"
      using fw se fc by (simp add: found_world_calls)
    show "stdout (final_world (main E argv)) = success_stdout E argv pd"
      using fw so fc cnt by (simp add: found_world_calls success_stdout_def)
    show "calls (final_world (main E argv)) = success_calls E argv pc cnt pd"
      using fw c fc n cnt by (simp add: found_world_calls success_calls_def)
  qed
qed

lemma ops_of_zip_finds [simp]:
  "ops_of (map (\<lambda>(k, p). Call_pfm_find_event p k (f p)) (zip ks ps)) = []"
  by (rule ops_of_finds) auto

lemma success_calls_ops: "ops_of (success_calls E argv pc cnt pd) = protocol"
  by (simp add: success_calls_def ops_of_append protocol_def)

lemma success_calls_last:
  "last (success_calls E argv pc cnt pd)
     = Call_perfmonctl (getpid E) PFM_DESTROY_CONTEXT Arg_null 0 None"
  by (simp add: success_calls_def)



lemma main_ops_prefix:
  "take (length (ops_of (calls (final_world (main E argv))))) protocol
     = ops_of (calls (final_world (main E argv)))"
proof (cases E argv rule: main_cases)
  case init_failed
  then show ?thesis by (simp add: start_world_def called_def printf_def)
next
  case too_many
  then show ?thesis by (simp add: start_world_def called_def printf_def)
next
  case (find_exit s w)
  with find_events_calls [of E "requested argv" 0 "replicate (pfp_evt_len E) 0" "found_world E"]
  show ?thesis by (auto simp: found_world_calls ops_of_append ops_of_finds)
next
  case (find_fault w)
  with find_events_calls [of E "requested argv" 0 "replicate (pfp_evt_len E) 0" "found_world E"]
  show ?thesis by (auto simp: found_world_calls ops_of_append ops_of_finds)
next
  case (found n evts w)
  with find_events_calls [of E "requested argv" 0 "replicate (pfp_evt_len E) 0" "found_world E"]
  have "ops_of (calls w) = []" by (auto simp: found_world_calls ops_of_append ops_of_finds)
  then show ?thesis using found(4) monitor_ops_prefix by simp
qed

lemma demo_getpid: "getpid demo_env = 4242"
  by (simp add: demo_env_def)

lemma demo_status: "exit_status (main demo_env [''syst'']) = Some 0"
  by (simp add: demo_run)

lemma map_enumerate_nth:
  "map f (enumerate 0 xs) = map (\<lambda>i. f (i, xs ! i)) [0..<length xs]"
  by (rule nth_equalityI) (simp_all add: nth_enumerate_eq)

lemma find_events_stdout:
  "stdout (final_world (find_events E ps i evts w)) = stdout w"
  by (induction ps arbitrary: i evts w) (simp_all add: Let_def called_def split: option.splits)

lemma find_events_first:
  "Call_pfm_find_event p i (pfm_find_event E p)
     \<in> set (calls (final_world (find_events E (p # ps) i evts w)))"
proof (cases "pfm_find_event E p")
  case None
  then show ?thesis by (simp add: Let_def called_def)
next
  case (Some ev)
  let ?w = "called (Call_pfm_find_event p i (Some ev)) w"
  show ?thesis
  proof (cases "i < length evts")
    case True
    with find_events_calls [of E ps "i + 1" "evts[i := ev]" ?w] Some
    show ?thesis by (auto simp: Let_def called_def)
  next
    case False
    then show ?thesis using Some by (simp add: Let_def called_def)
  qed
qed

lemma monitor_calls_mono:
  "take (length (calls w)) (calls (final_world (monitor E pid evt w))) = calls w"
  by (simp add: monitor_def Let_def stage_defs called_def printf_def print_results_calls
        split: option.splits sum.splits prod.splits)

lemma monitor_keeps_calls:
  "c \<in> set (calls w) \<Longrightarrow> c \<in> set (calls (final_world (monitor E pid evt w)))"
  using monitor_calls_mono [of w E pid evt] by (metis in_set_takeD)

lemma main_too_many_iff:
  "(stdout (final_world (main E argv)) = [''Too many events specified'' @ [nl]]) =
   (pfm_initialize E \<and> int (length argv) - 1 > pfm_get_num_counters E)"
proof (cases E argv rule: main_cases)
  case init_failed
  then show ?thesis by (simp add: start_world_def called_def printf_def)
next
  case too_many
  then show ?thesis by (simp add: start_world_def called_def printf_def)
next
  case (find_exit s w)
  with find_events_stdout [of E "requested argv" 0 "replicate (pfp_evt_len E) 0" "found_world E"]
  show ?thesis by (simp add: found_world_calls)
next
  case (find_fault w)
  with find_events_stdout [of E "requested argv" 0 "replicate (pfp_evt_len E) 0" "found_world E"]
  show ?thesis by (simp add: found_world_calls)
next
  case (found n evts w)
  with find_events_stdout [of E "requested argv" 0 "replicate (pfp_evt_len E) 0" "found_world E"]
  have "stdout w = []" by (simp add: found_world_calls)
  from monitor_stdout [OF this] found show ?thesis by simp
qed

lemma main_first_find:
  assumes "pfm_initialize E" "int (length argv) - 1 \<le> pfm_get_num_counters E"
    and "requested argv = p # ps"
  shows "Call_pfm_find_event p 0 (pfm_find_event E p) \<in> set (calls (final_world (main E argv)))"
proof -
  let ?r = "find_events E (requested argv) 0 (replicate (pfp_evt_len E) 0) (found_world E)"
  have first: "Call_pfm_find_event p 0 (pfm_find_event E p) \<in> set (calls (final_world ?r))"
    using find_events_first [of p 0 E ps] assms(3) by simp
  show ?thesis
  proof (cases E argv rule: main_cases)
    case init_failed
    then show ?thesis using assms by simp
  next
    case too_many
    then show ?thesis using assms by simp
  next
    case (find_exit s w)
    then show ?thesis using first by simp
  next
    case (find_fault w)
    then show ?thesis using first by simp
  next
    case (found n evts w)
    then have "Call_pfm_find_event p 0 (pfm_find_event E p) \<in> set (calls w)" using first by simp
    then show ?thesis using found(4) monitor_keeps_calls by simp
  qed
qed

lemma main_status:
  "exit_status (main E argv) = Some 0 \<or> exit_status (main E argv) = Some 1
     \<or> (\<exists>w. main E argv = Fault w)"
proof (cases E argv rule: main_cases)
  case (find_exit s w)
  then show ?thesis using find_events_Exit [OF find_exit(3)] by simp
next
  case (found n evts w)
  then show ?thesis using monitor_status by simp
qed simp_all

lemma main_failed:
  "(exit_status (main E argv) = Some 1) =
   (\<exists>c\<in>set (calls (final_world (main E argv))). failed (int (length argv)) c)"
proof (cases E argv rule: main_cases)
  case init_failed
  then show ?thesis by (simp add: start_world_def called_def printf_def)
next
  case too_many
  then show ?thesis by (simp add: start_world_def called_def printf_def)
next
  case (find_exit s w)
  from find_events_Exit [OF find_exit(3)] obtain p k where
    "s = 1" "Call_pfm_find_event p k None \<in> set (calls w)" by blast
  then have "s = 1" "\<exists>c\<in>set (calls w). failed (int (length argv)) c"
    by (auto intro!: bexI [of _ "Call_pfm_find_event p k None"])
  then show ?thesis using find_exit(4) by simp
next
  case (find_fault w)
  from find_events_Fault [OF find_fault(3), of "int (length argv)"]
  have "\<forall>c\<in>set (calls w) - set (calls (found_world E)). \<not> failed (int (length argv)) c"
    by simp
  moreover have "\<forall>c\<in>set (calls (found_world E)). \<not> failed (int (length argv)) c"
    using find_fault(2) by (simp add: found_world_calls)
  ultimately have "\<forall>c\<in>set (calls w). \<not> failed (int (length argv)) c" by blast
  then show ?thesis using find_fault(4) by simp
next
  case (found n evts w)
  from find_events_Cont [OF found(3)]
  have "calls w = calls (found_world E) @
      map (\<lambda>(k, p). Call_pfm_find_event p k (pfm_find_event E p)) (zip [0..<n] (requested argv))"
    and "\<forall>p\<in>set (requested argv). pfm_find_event E p \<noteq> None"
    by simp_all
  then have "\<forall>c\<in>set (calls w). \<not> failed (int (length argv)) c"
    using found(2) by (auto simp: found_world_calls dest!: set_zip_rightD)
  from monitor_failed [OF this] found(4) show ?thesis by simp
qed

lemma read_pmds_failure:
  "perfmonctl E pid PFM_READ_PMDS (Arg_regs pd) (int n) = Some errno \<Longrightarrow>
     exit_status (read_pmds E pid pd n w) = Some 1"
  by (simp add: read_pmds_def Let_def)

lemmas env_defs = one_counter_env_def lenient_env_def read_fails_env_def

lemma one_counter_run:
  "main one_counter_env [''syst''] = Exit 1
     \<lparr>calls =
        [Call_getpid, Call_pfm_initialize True, Call_pfm_get_num_counters 1,
         Call_pfm_set_options 0,
         Call_pfm_find_event ''cpu_cycles'' 0 (Some 18),
         Call_pfm_find_event ''IA64_INST_RETIRED'' 1 (Some 8),
         Call_pfm_dispatch_events
           \<lparr>pfp_evt = [18, 8, 0, 0], pfp_count = 2, pfp_dfl_plm = 1, pfp_pm = 1\<rparr>
           [\<lparr>reg_num = 0, reg_value = 0\<rparr>, \<lparr>reg_num = 0, reg_value = 0\<rparr>,
            \<lparr>reg_num = 0, reg_value = 0\<rparr>, \<lparr>reg_num = 0, reg_value = 0\<rparr>]
           4 (Inl (- 1)),
         Call_pfm_strerror (- 1)],
      stdout = [],
      stderr = [''cannot configure events: event set not supported'' @ [nl]]\<rparr>"
  by (simp add: env_defs eval_defs)

lemma lenient_run:
  "exit_status (main lenient_env [''syst'']) = Some 0"
  "ops_of (calls (final_world (main lenient_env [''syst'']))) = protocol"
  by (simp_all add: env_defs eval_defs protocol_def)

lemma uninitialised_run:
  "main uninitialised_env [''syst'', ''ev1'', ''ev2'', ''ev3'', ''ev4'', ''ev5''] = Exit 1
     \<lparr>calls = [Call_getpid, Call_pfm_initialize False],
      stdout = [''Can't initialize library'' @ [nl]],
      stderr = []\<rparr>"
  by (simp add: uninitialised_env_def main_def initialize_def Let_def exit_with_def called_def
        printf_def demo_env_def)

lemma bogus_run:
  "main demo_env [''syst'', ''bogus_event''] = Exit 1
     \<lparr>calls =
        [Call_getpid, Call_pfm_initialize True, Call_pfm_get_num_counters 4,
         Call_pfm_set_options 0, Call_pfm_find_event ''bogus_event'' 0 None],
      stdout = [],
      stderr = [''Cannot find bogus_event event'' @ [nl]]\<rparr>"
  by (simp add: eval_defs)

lemma read_fails_run:
  "exit_status (main read_fails_env [''syst'']) = Some 1"
  "stderr (final_world (main read_fails_env [''syst''])) = [''perfmonctl error READ_PMDS errno 22'' @ [nl]]"
  "last (calls (final_world (main read_fails_env [''syst''])))
     = Call_perfmonctl 4242 PFM_READ_PMDS
        (Arg_regs [\<lparr>reg_num = 7, reg_value = 0\<rparr>, \<lparr>reg_num = 6, reg_value = 0\<rparr>,
                   \<lparr>reg_num = 0, reg_value = 0\<rparr>, \<lparr>reg_num = 0, reg_value = 0\<rparr>])
        2 (Some 22)"
  by (simp_all add: env_defs eval_defs)

lemma resolve_unknown: "name \<notin> fst ` set catalog \<Longrightarrow> resolve catalog name = Inl UnknownEvent"
proof -
  assume "name \<notin> fst ` set catalog"
  then have "map_of catalog name = None" by (simp add: map_of_eq_None_iff)
  then show ?thesis by (simp add: resolve_def)
qed

lemma find_events_no_Fault:
  "i + length ps \<le> length evts \<Longrightarrow> find_events E ps i evts w \<noteq> Fault w'"
  by (induction ps arbitrary: i evts w) (auto simp: Let_def split: option.splits)

lemma find_events_no_session:
  assumes "\<forall>c\<in>set (calls w). \<not> is_dispatch c \<and> \<not> is_perfmonctl c"
  shows "\<forall>c\<in>set (calls (final_world (find_events E ps i evts w))).
           \<not> is_dispatch c \<and> \<not> is_perfmonctl c"
proof -
  obtain cs where cs: "calls (final_world (find_events E ps i evts w)) = calls w @ cs"
    "\<forall>c\<in>set cs. is_find c"
    using find_events_calls by blast
  have "\<forall>c\<in>set cs. \<not> is_dispatch c \<and> \<not> is_perfmonctl c"
    using cs(2) is_find_not_dispatch by blast
  then show ?thesis using assms by (simp add: cs(1) ball_Un)
qed

lemma main_unknown_event:
  assumes "p \<in> set (requested argv)" "pfm_find_event E p = None"
  shows "(\<forall>c\<in>set (calls (final_world (main E argv))). \<not> is_dispatch c \<and> \<not> is_perfmonctl c) \<and>
         exit_status (main E argv) \<noteq> Some 0"
proof -
  have pre: "\<forall>c\<in>set (calls (found_world E)). \<not> is_dispatch c \<and> \<not> is_perfmonctl c"
    by (simp add: found_world_calls)
  note fs = find_events_no_session [OF pre, of E "requested argv" 0 "replicate (pfp_evt_len E) 0"]
  show ?thesis
  proof (cases E argv rule: main_cases)
    case init_failed
    then show ?thesis by (simp add: start_world_def called_def printf_def)
  next
    case too_many
    then show ?thesis by (simp add: start_world_def called_def printf_def)
  next
    case (find_exit s w)
    then show ?thesis using fs find_events_Exit [OF find_exit(3)] by simp
  next
    case (find_fault w)
    then show ?thesis using fs by simp
  next
    case (found n evts w)
    then show ?thesis using find_events_unknown [OF assms] by blast
  qed
qed

lemma main_unknown_event_message:
  assumes "p \<in> set (requested argv)" "pfm_find_event E p = None"
    and "pfm_initialize E" "int (length argv) - 1 \<le> pfm_get_num_counters E"
    and "length (requested argv) \<le> pfp_evt_len E"
  shows "exit_status (main E argv) = Some 1 \<and>
         (\<exists>q\<in>set (requested argv). pfm_find_event E q = None \<and>
            stderr (final_world (main E argv)) = [''Cannot find '' @ q @ '' event'' @ [nl]])"
proof (cases E argv rule: main_cases)
  case (find_exit s w)
  from find_events_Exit [OF find_exit(3)] find_exit(4) show ?thesis
    by (auto simp: found_world_calls)
next
  case (find_fault w)
  then show ?thesis using find_events_no_Fault [of 0 "requested argv" "replicate (pfp_evt_len E) 0"] assms(5)
    by simp
next
  case (found n evts w)
  then show ?thesis using find_events_unknown [OF assms(1,2)] by blast
qed (use assms in simp_all)

lemma demo_find_event: "pfm_find_event demo_env = find_in demo_catalog"
  by (simp add: demo_env_def)

lemma first_fit_placed:
  "distinct free \<Longrightarrow> \<not> placement_conflict el free es \<Longrightarrow>
   \<exists>as. first_fit el pol free es = Inr as \<and> map event as = es \<and>
        distinct (map register_index as) \<and> set (map register_index as) \<subseteq> set free \<and>
        (\<forall>a\<in>set as. el (event a) (register_index a) \<and> control a = pol)"
proof (induction es arbitrary: free)
  case Nil
  then show ?case by simp
next
  case (Cons e es)
  from Cons.prems(2) obtain r rs where r: "filter (el e) free = r # rs"
    and rest: "\<not> placement_conflict el (remove1 r free) es"
    by (auto split: list.splits)
  from r have "r \<in> set (filter (el e) free)" by simp
  then have rin: "r \<in> set free" and rel: "el e r" by auto
  have "distinct (remove1 r free)" using Cons.prems(1) by simp
  from Cons.IH [OF this rest] obtain as where as: "first_fit el pol (remove1 r free) es = Inr as"
    "map event as = es" "distinct (map register_index as)"
    "set (map register_index as) \<subseteq> set (remove1 r free)"
    "\<forall>a\<in>set as. el (event a) (register_index a) \<and> control a = pol"
    by blast
  have notin: "r \<notin> set (map register_index as)"
    using as(4) Cons.prems(1) by auto
  have sub: "set (map register_index as) \<subseteq> set free"
    using as(4) Cons.prems(1) by auto
  show ?case using r as rin rel notin sub by simp
qed

text \<open>Where no event is restricted, a request that fits the free registers has no conflict.\<close>

lemma unrestricted_no_conflict:
  "\<forall>e r. el e r \<Longrightarrow> length es \<le> length free \<Longrightarrow> \<not> placement_conflict el free es"
proof (induction es arbitrary: free)
  case Nil
  then show ?case by simp
next
  case (Cons e es)
  from Cons.prems obtain r rs where free: "free = r # rs" by (cases free) auto
  have f: "filter (el e) free = free" using Cons.prems(1) by simp
  have "length es \<le> length (remove1 r free)" using Cons.prems(2) free by simp
  from Cons.IH [OF Cons.prems(1) this] show ?case using f free by simp
qed

lemma demo_free: "[0..<capacity demo_platform] = [0, 1, 2, 3]"
  by (simp add: demo_platform_def upt_conv_Cons)

lemma demo_eligible: "eligible demo_platform = (\<lambda>e r. e = 18 \<or> r < 2)"
  by (simp add: demo_platform_def)

lemma demo_allocate:
  "allocate demo_platform [18, 8] demo_policy =
     Inr [\<lparr>event = 18, register_index = 0, control = demo_policy\<rparr>,
          \<lparr>event = 8, register_index = 1, control = demo_policy\<rparr>]"
  by (simp add: allocate_def demo_free demo_eligible) (simp add: demo_platform_def)

lemma demo_fields:
  "pfm_initialize demo_env" "pfm_get_num_counters demo_env = 4"
  "pfm_initialize one_counter_env" "pfm_get_num_counters one_counter_env = 1"
  "pfm_get_num_counters lenient_env = 1"
  "pfm_get_num_counters uninitialised_env = 4"
  "pfp_evt_len demo_env = 4"
  by (simp_all add: demo_env_def one_counter_env_def lenient_env_def uninitialised_env_def)

lemma read_fails_perfmonctl: "perfmonctl read_fails_env pid PFM_READ_PMDS arg n = Some 22"
  by (simp add: read_fails_env_def demo_env_def)

section \<open>The claims\<close>

text \<open>
  C1. Allocation, as section 4.2 of the specification describes it: for a request no
  larger than the capacity and free of placement conflicts, \<open>allocate\<close> returns one
  assignment per requested event, in request order, on pairwise distinct registers,
  each below the capacity and eligible for its event.
\<close>

theorem allocate_one_register_per_event:
  assumes "length events \<le> capacity hw"
    and "\<not> placement_conflict (eligible hw) [0..<capacity hw] events"
  shows "\<exists>as. allocate hw events pol = Inr as \<and> length as = length events \<and>
           map event as = events \<and> distinct (map register_index as) \<and>
           (\<forall>a\<in>set as. register_index a < capacity hw \<and>
                        eligible hw (event a) (register_index a) \<and> control a = pol)"
proof -
  from first_fit_placed [OF _ assms(2), of pol] obtain as where
    as: "first_fit (eligible hw) pol [0..<capacity hw] events = Inr as" "map event as = events"
      "distinct (map register_index as)" "set (map register_index as) \<subseteq> set [0..<capacity hw]"
      "\<forall>a\<in>set as. eligible hw (event a) (register_index a) \<and> control a = pol"
    by auto
  have "length as = length events" using as(2) by (metis length_map)
  moreover have "\<forall>a\<in>set as. register_index a < capacity hw" using as(4) by auto
  ultimately show ?thesis using as assms(1) by (auto simp: allocate_def)
qed

text \<open>Two events on the four-register platform; the second may only use registers 0 and 1.\<close>

theorem allocate_one_register_per_event_witness:
  "length [18, 8 :: int] \<le> capacity demo_platform \<and>
   \<not> placement_conflict (eligible demo_platform) [0..<capacity demo_platform] [18, 8] \<and>
   allocate demo_platform [18, 8] demo_policy =
     Inr [\<lparr>event = 18, register_index = 0, control = demo_policy\<rparr>,
          \<lparr>event = 8, register_index = 1, control = demo_policy\<rparr>]"
  using allocate_one_register_per_event [of "[18, 8]" demo_platform demo_policy]
  by (simp add: demo_allocate demo_free demo_eligible) (simp add: demo_platform_def)

text \<open>
  C2. The session operations come in the strict order create-context, enable, write
  control registers, write counter registers, start, stop, read, destroy-context. In
  every run the commands issued are an initial segment of that sequence; in a run
  that ends with status 0 they are the whole sequence, each once, and the
  destroy-context call is the last call the program makes.
\<close>

theorem session_operations_in_order:
  "take (length (ops_of (calls (final_world (main E argv))))) protocol
     = ops_of (calls (final_world (main E argv))) \<and>
   (exit_status (main E argv) = Some 0 \<longrightarrow>
      ops_of (calls (final_world (main E argv))) = protocol \<and>
      last (calls (final_world (main E argv)))
        = Call_perfmonctl (getpid E) PFM_DESTROY_CONTEXT Arg_null 0 None)"
proof (intro conjI impI)
  show "take (length (ops_of (calls (final_world (main E argv))))) protocol
          = ops_of (calls (final_world (main E argv)))"
    by (rule main_ops_prefix)
next
  assume ok: "exit_status (main E argv) = Some 0"
  show "ops_of (calls (final_world (main E argv))) = protocol"
  proof (rule main_success [OF ok])
    fix pc cnt pd
    assume "calls (final_world (main E argv)) = success_calls E argv pc cnt pd"
    then show ?thesis by (simp add: success_calls_ops)
  qed
next
  assume ok: "exit_status (main E argv) = Some 0"
  show "last (calls (final_world (main E argv)))
          = Call_perfmonctl (getpid E) PFM_DESTROY_CONTEXT Arg_null 0 None"
  proof (rule main_success [OF ok])
    fix pc cnt pd
    assume "calls (final_world (main E argv)) = success_calls E argv pc cnt pd"
    then show ?thesis by (simp add: success_calls_last)
  qed
qed

text \<open>The run on the four-counter platform.\<close>

theorem session_operations_in_order_witness:
  "exit_status (main demo_env [''syst'']) = Some 0 \<and>
   ops_of (calls (final_world (main demo_env [''syst'']))) =
     [PFM_CREATE_CONTEXT, PFM_ENABLE, PFM_WRITE_PMCS, PFM_WRITE_PMDS,
      PFM_START, PFM_STOP, PFM_READ_PMDS, PFM_DESTROY_CONTEXT] \<and>
   last (calls (final_world (main demo_env [''syst''])))
     = Call_perfmonctl 4242 PFM_DESTROY_CONTEXT Arg_null 0 None"
  using session_operations_in_order [of demo_env "[''syst'']"]
  by (simp add: demo_run protocol_def demo_getpid)

text \<open>
  C3, as the program has it. Once the library is initialised, a command line with
  more event arguments than the platform has counters (\<open>argc - 1\<close> above
  \<^verbatim>\<open>pfm_get_num_counters()\<close>) ends the run with the message "Too many events
  specified" and status 1; the only calls made are \<^verbatim>\<open>getpid\<close>,
  \<^verbatim>\<open>pfm_initialize\<close> and \<^verbatim>\<open>pfm_get_num_counters\<close>, so no name is resolved, nothing
  is allocated and no context is created.
\<close>

theorem too_many_events_checked_first:
  assumes "pfm_initialize E" "int (length argv) - 1 > pfm_get_num_counters E"
  shows "main E argv = Exit 1
           \<lparr>calls = [Call_getpid, Call_pfm_initialize True,
                     Call_pfm_get_num_counters (pfm_get_num_counters E)],
            stdout = [''Too many events specified'' @ [nl]],
            stderr = []\<rparr>"
proof (cases E argv rule: main_cases)
  case too_many
  then show ?thesis by (simp add: start_world_def called_def printf_def)
qed (use assms in simp_all)

text \<open>Five events on the four-counter platform.\<close>

theorem too_many_events_checked_first_witness:
  "pfm_initialize demo_env \<and>
   int (length [''syst'', ''ev1'', ''ev2'', ''ev3'', ''ev4'', ''ev5'']) - 1 > pfm_get_num_counters demo_env \<and>
   main demo_env [''syst'', ''ev1'', ''ev2'', ''ev3'', ''ev4'', ''ev5''] = Exit 1
     \<lparr>calls = [Call_getpid, Call_pfm_initialize True, Call_pfm_get_num_counters 4],
      stdout = [''Too many events specified'' @ [nl]],
      stderr = []\<rparr>"
  using too_many_events_checked_first [of demo_env "[''syst'', ''ev1'', ''ev2'', ''ev3'', ''ev4'', ''ev5'']"]
  by (simp add: demo_fields)

text \<open>
  C3 as stated speaks of the events requested, not of the arguments. Without
  arguments the request is the built-in list of two events. On a platform that
  reports one counter the run resolves both names and calls the allocator; it stops
  only when the allocator turns the request down, and where the allocator accepts it
  the run creates the context and ends with status 0. And where the library fails to
  initialise, five events on the four-counter platform end with the message of line
  78, not with that of line 86.
\<close>

theorem too_many_events_counterexample:
  "pfm_get_num_counters one_counter_env < int (length (requested [''syst''])) \<and>
   Call_pfm_find_event ''cpu_cycles'' 0 (Some 18)
     \<in> set (calls (final_world (main one_counter_env [''syst'']))) \<and>
   stdout (final_world (main one_counter_env [''syst''])) = [] \<and>
   stderr (final_world (main one_counter_env [''syst'']))
     = [''cannot configure events: event set not supported'' @ [nl]] \<and>
   pfm_get_num_counters lenient_env < int (length (requested [''syst''])) \<and>
   exit_status (main lenient_env [''syst'']) = Some 0 \<and>
   ops_of (calls (final_world (main lenient_env [''syst''])))
     = [PFM_CREATE_CONTEXT, PFM_ENABLE, PFM_WRITE_PMCS, PFM_WRITE_PMDS,
        PFM_START, PFM_STOP, PFM_READ_PMDS, PFM_DESTROY_CONTEXT] \<and>
   pfm_get_num_counters uninitialised_env
     < int (length (requested [''syst'', ''ev1'', ''ev2'', ''ev3'', ''ev4'', ''ev5''])) \<and>
   stdout (final_world (main uninitialised_env [''syst'', ''ev1'', ''ev2'', ''ev3'', ''ev4'', ''ev5'']))
     = [''Can't initialize library'' @ [nl]]"
  by (simp add: one_counter_run lenient_run uninitialised_run demo_fields requested_def
        event_list_def protocol_def)

text \<open>
  C4. A name that matches no entry of the catalog is not resolved: \<open>resolve\<close> fails
  with \<open>UnknownEvent\<close>. When the library resolves by that catalog and such a name is
  among the requested ones, the run never reaches the allocator or \<^verbatim>\<open>perfmonctl\<close>
  and does not end with status 0; where the library is initialised, the count check
  passes and the names fit the descriptor array, it ends with status 1 and the
  message "Cannot find ... event" for an unresolved name.
\<close>

theorem unknown_event_fails_before_allocation:
  assumes "name \<notin> fst ` set catalog"
  shows "resolve catalog name = Inl UnknownEvent \<and>
     (pfm_find_event E = find_in catalog \<longrightarrow> name \<in> set (requested argv) \<longrightarrow>
        (\<forall>c\<in>set (calls (final_world (main E argv))). \<not> is_dispatch c \<and> \<not> is_perfmonctl c) \<and>
        exit_status (main E argv) \<noteq> Some 0 \<and>
        (pfm_initialize E \<longrightarrow> int (length argv) - 1 \<le> pfm_get_num_counters E \<longrightarrow>
         length (requested argv) \<le> pfp_evt_len E \<longrightarrow>
           exit_status (main E argv) = Some 1 \<and>
           (\<exists>q\<in>set (requested argv). pfm_find_event E q = None \<and>
              stderr (final_world (main E argv)) = [''Cannot find '' @ q @ '' event'' @ [nl]])))"
proof (intro conjI impI)
  show r: "resolve catalog name = Inl UnknownEvent" using assms by (rule resolve_unknown)
  {
    assume f: "pfm_find_event E = find_in catalog" and n: "name \<in> set (requested argv)"
    have none: "pfm_find_event E name = None" using f r by (simp add: find_in_def)
    from main_unknown_event [OF n none]
    show "\<forall>c\<in>set (calls (final_world (main E argv))). \<not> is_dispatch c \<and> \<not> is_perfmonctl c"
      and "exit_status (main E argv) \<noteq> Some 0" by simp_all
    assume "pfm_initialize E" "int (length argv) - 1 \<le> pfm_get_num_counters E"
      "length (requested argv) \<le> pfp_evt_len E"
    from main_unknown_event_message [OF n none this]
    show "exit_status (main E argv) = Some 1"
      and "\<exists>q\<in>set (requested argv). pfm_find_event E q = None \<and>
              stderr (final_world (main E argv)) = [''Cannot find '' @ q @ '' event'' @ [nl]]"
      by simp_all
  }
qed

text \<open>The request for \<^verbatim>\<open>bogus_event\<close> on the four-counter platform.\<close>

theorem unknown_event_fails_before_allocation_witness:
  "''bogus_event'' \<notin> fst ` set demo_catalog \<and>
   pfm_find_event demo_env = find_in demo_catalog \<and>
   ''bogus_event'' \<in> set (requested [''syst'', ''bogus_event'']) \<and>
   pfm_initialize demo_env \<and>
   int (length [''syst'', ''bogus_event'']) - 1 \<le> pfm_get_num_counters demo_env \<and>
   length (requested [''syst'', ''bogus_event'']) \<le> pfp_evt_len demo_env \<and>
   resolve demo_catalog ''bogus_event'' = Inl UnknownEvent \<and>
   calls (final_world (main demo_env [''syst'', ''bogus_event''])) =
     [Call_getpid, Call_pfm_initialize True, Call_pfm_get_num_counters 4,
      Call_pfm_set_options 0, Call_pfm_find_event ''bogus_event'' 0 None] \<and>
   exit_status (main demo_env [''syst'', ''bogus_event'']) = Some 1 \<and>
   stderr (final_world (main demo_env [''syst'', ''bogus_event'']))
     = [''Cannot find bogus_event event'' @ [nl]]"
  using unknown_event_fails_before_allocation
          [of "''bogus_event''" demo_catalog demo_env "[''syst'', ''bogus_event'']"]
  by (simp add: demo_catalog_def requested_def bogus_run demo_find_event demo_fields)

text \<open>
  C5. Arming: in a successful run the program passes to \<^verbatim>\<open>PFM_WRITE_PMCS\<close> the array
  and the count that the allocation call returned, and right after it passes to
  \<^verbatim>\<open>PFM_WRITE_PMDS\<close> one entry per requested event, naming the register of the
  allocation entry at the same position, with value zero. The later
  \<^verbatim>\<open>PFM_READ_PMDS\<close> call names the same registers.
\<close>

theorem arm_writes_control_then_zeroed_counters:
  assumes ok: "exit_status (main E argv) = Some 0"
  shows "\<exists>pre mid post evt pc0 cnt0 pc cnt pd.
     calls (final_world (main E argv)) =
       pre @ [Call_pfm_dispatch_events evt pc0 cnt0 (Inr (pc, cnt))] @ mid @
       [Call_perfmonctl (getpid E) PFM_WRITE_PMCS (Arg_regs pc) cnt None,
        Call_perfmonctl (getpid E) PFM_WRITE_PMDS (Arg_regs pd) (int (pfp_count evt)) None] @ post \<and>
     (\<forall>c\<in>set (pre @ mid @ post). \<not> is_dispatch c) \<and>
     ops_of (pre @ mid) = [PFM_CREATE_CONTEXT, PFM_ENABLE] \<and>
     ops_of post = [PFM_START, PFM_STOP, PFM_READ_PMDS, PFM_DESTROY_CONTEXT] \<and>
     Call_perfmonctl (getpid E) PFM_READ_PMDS (Arg_regs pd) (int (pfp_count evt)) None \<in> set post \<and>
     pfp_count evt = length (requested argv) \<and> pfp_count evt \<le> length pd \<and>
     (\<forall>i<pfp_count evt. reg_num (pd ! i) = reg_num (pc ! i) \<and> reg_value (pd ! i) = 0)"
proof (rule main_success [OF ok])
  fix pc cnt pd
  assume f: "fill_pd pc (replicate (PMU_MAX_PMDS E) zero_reg) 0 (length (requested argv)) = Some pd"
    and c: "calls (final_world (main E argv)) = success_calls E argv pc cnt pd"
  let ?finds = "map (\<lambda>(k, p). Call_pfm_find_event p k (pfm_find_event E p))
         (zip [0..<length (requested argv)] (requested argv))"
  let ?pre = "[Call_getpid, Call_pfm_initialize True,
      Call_pfm_get_num_counters (pfm_get_num_counters E), Call_pfm_set_options 0] @ ?finds"
  let ?mid = "[Call_perfmonctl (getpid E) PFM_CREATE_CONTEXT
          (Arg_ctx [\<lparr>ctx_flags = PFM_FL_INHERIT_NONE E OR PFM_FL_SYSTEM_WIDE E,
                     ctx_cpu_mask = push_bit WHICH_CPU 1\<rparr>]) 1 None,
        Call_perfmonctl (getpid E) PFM_ENABLE Arg_null 0 None]"
  let ?post = "[Call_perfmonctl (getpid E) PFM_START Arg_null 0 None,
        Call_getchar,
        Call_perfmonctl (getpid E) PFM_STOP Arg_null 0 None,
        Call_perfmonctl (getpid E) PFM_READ_PMDS (Arg_regs pd)
          (int (pfp_count (request_param E argv))) None] @
       map (\<lambda>i. Call_pfm_get_event_name (pfp_evt (request_param E argv) ! i))
         [0..<length (requested argv)] @
       [Call_perfmonctl (getpid E) PFM_DESTROY_CONTEXT Arg_null 0 None]"
  have nd: "\<forall>c\<in>set ?finds. \<not> is_dispatch c" by auto
  note z = fill_pd_zeroed [OF f]
  have cnt: "pfp_count (request_param E argv) = length (requested argv)"
    by (simp add: request_param_def)
  have h1: "calls (final_world (main E argv)) =
       ?pre @ [Call_pfm_dispatch_events (request_param E argv) (replicate (PMU_MAX_PMCS E) zero_reg)
          (int (PMU_MAX_PMCS E)) (Inr (pc, cnt))] @ ?mid @
       [Call_perfmonctl (getpid E) PFM_WRITE_PMCS (Arg_regs pc) cnt None,
        Call_perfmonctl (getpid E) PFM_WRITE_PMDS (Arg_regs pd)
          (int (pfp_count (request_param E argv))) None] @ ?post"
    by (simp add: c cnt success_calls_def)
  have h2: "\<forall>c\<in>set (?pre @ ?mid @ ?post). \<not> is_dispatch c"
    using nd by (simp add: ball_Un)
  have h3: "ops_of (?pre @ ?mid) = [PFM_CREATE_CONTEXT, PFM_ENABLE]"
    by (simp add: ops_of_append)
  have h4: "ops_of ?post = [PFM_START, PFM_STOP, PFM_READ_PMDS, PFM_DESTROY_CONTEXT]"
    by (simp add: ops_of_append)
  have h5: "Call_perfmonctl (getpid E) PFM_READ_PMDS (Arg_regs pd)
      (int (pfp_count (request_param E argv))) None \<in> set ?post"
    by simp
  have h6: "pfp_count (request_param E argv) \<le> length pd" using z cnt by simp
  have h7: "\<forall>i<pfp_count (request_param E argv).
      reg_num (pd ! i) = reg_num (pc ! i) \<and> reg_value (pd ! i) = 0"
    using z cnt by simp
  show ?thesis
    apply (intro exI conjI)
           apply (rule h1)
          apply (rule h2)
         apply (rule h3)
        apply (rule h4)
       apply (rule h5)
      apply (rule cnt)
     apply (rule h6)
    apply (rule h7)
    done
qed

text \<open>The run on the four-counter platform.\<close>

theorem arm_writes_control_then_zeroed_counters_witness:
  "exit_status (main demo_env [''syst'']) = Some 0 \<and>
   (\<exists>pre mid post evt pc0 cnt0 pc cnt pd.
     calls (final_world (main demo_env [''syst''])) =
       pre @ [Call_pfm_dispatch_events evt pc0 cnt0 (Inr (pc, cnt))] @ mid @
       [Call_perfmonctl (getpid demo_env) PFM_WRITE_PMCS (Arg_regs pc) cnt None,
        Call_perfmonctl (getpid demo_env) PFM_WRITE_PMDS (Arg_regs pd) (int (pfp_count evt)) None] @ post \<and>
     (\<forall>c\<in>set (pre @ mid @ post). \<not> is_dispatch c) \<and>
     ops_of (pre @ mid) = [PFM_CREATE_CONTEXT, PFM_ENABLE] \<and>
     ops_of post = [PFM_START, PFM_STOP, PFM_READ_PMDS, PFM_DESTROY_CONTEXT] \<and>
     Call_perfmonctl (getpid demo_env) PFM_READ_PMDS (Arg_regs pd) (int (pfp_count evt)) None \<in> set post \<and>
     pfp_count evt = length (requested [''syst'']) \<and> pfp_count evt \<le> length pd \<and>
     (\<forall>i<pfp_count evt. reg_num (pd ! i) = reg_num (pc ! i) \<and> reg_value (pd ! i) = 0))"
  using demo_status arm_writes_control_then_zeroed_counters [OF demo_status]
  by (rule conjI)

text \<open>
  C6. The report of a successful run has, after the two banner lines, one row per
  requested event in request order. Row \<open>i\<close> carries the register that allocation
  entry \<open>i\<close> names, the value read from that register as an unsigned decimal, and
  the name the library gives for the descriptor resolved from the \<open>i\<close>-th requested
  name.
\<close>

theorem result_rows_in_request_order:
  assumes ok: "exit_status (main E argv) = Some 0"
  shows "\<exists>pre post evt pc0 cnt0 pc cnt.
     calls (final_world (main E argv)) =
       pre @ [Call_pfm_dispatch_events evt pc0 cnt0 (Inr (pc, cnt))] @ post \<and>
     (\<forall>c\<in>set (pre @ post). \<not> is_dispatch c) \<and>
     (\<forall>name\<in>set (requested argv). pfm_find_event E name \<noteq> None) \<and>
     stdout (final_world (main E argv)) =
       [''<Press a key to stop monitoring>'' @ [nl],
        ''<Monitoring stopped on CPU'' @ dec_int (int WHICH_CPU) @ ''>'' @ [nl, nl]] @
       map (\<lambda>(i, name). result_row (reg_num (pc ! i)) (pmd_value E (reg_num (pc ! i)))
                            (pfm_get_event_name E (the (pfm_find_event E name))))
         (enumerate 0 (requested argv))"
proof (rule main_success [OF ok])
  fix pc cnt pd
  assume known: "\<forall>p\<in>set (requested argv). pfm_find_event E p \<noteq> None"
    and f: "fill_pd pc (replicate (PMU_MAX_PMDS E) zero_reg) 0 (length (requested argv)) = Some pd"
    and c: "calls (final_world (main E argv)) = success_calls E argv pc cnt pd"
    and out: "stdout (final_world (main E argv)) = success_stdout E argv pd"
  let ?finds = "map (\<lambda>(k, p). Call_pfm_find_event p k (pfm_find_event E p))
         (zip [0..<length (requested argv)] (requested argv))"
  let ?pre = "[Call_getpid, Call_pfm_initialize True,
      Call_pfm_get_num_counters (pfm_get_num_counters E), Call_pfm_set_options 0] @ ?finds"
  let ?post = "[Call_perfmonctl (getpid E) PFM_CREATE_CONTEXT
          (Arg_ctx [\<lparr>ctx_flags = PFM_FL_INHERIT_NONE E OR PFM_FL_SYSTEM_WIDE E,
                     ctx_cpu_mask = push_bit WHICH_CPU 1\<rparr>]) 1 None,
        Call_perfmonctl (getpid E) PFM_ENABLE Arg_null 0 None,
        Call_perfmonctl (getpid E) PFM_WRITE_PMCS (Arg_regs pc) cnt None,
        Call_perfmonctl (getpid E) PFM_WRITE_PMDS (Arg_regs pd) (int (length (requested argv))) None,
        Call_perfmonctl (getpid E) PFM_START Arg_null 0 None,
        Call_getchar,
        Call_perfmonctl (getpid E) PFM_STOP Arg_null 0 None,
        Call_perfmonctl (getpid E) PFM_READ_PMDS (Arg_regs pd) (int (length (requested argv))) None] @
       map (\<lambda>i. Call_pfm_get_event_name (pfp_evt (request_param E argv) ! i))
         [0..<length (requested argv)] @
       [Call_perfmonctl (getpid E) PFM_DESTROY_CONTEXT Arg_null 0 None]"
  note z = fill_pd_zeroed [OF f]
  have h1: "calls (final_world (main E argv)) =
       ?pre @ [Call_pfm_dispatch_events (request_param E argv) (replicate (PMU_MAX_PMCS E) zero_reg)
          (int (PMU_MAX_PMCS E)) (Inr (pc, cnt))] @ ?post"
    by (simp add: c success_calls_def)
  have nd: "\<forall>c\<in>set ?finds. \<not> is_dispatch c" by auto
  have h2: "\<forall>c\<in>set (?pre @ ?post). \<not> is_dispatch c"
    using nd by (simp add: ball_Un)
  have row: "result_row (reg_num (pd ! i)) (pmd_value E (reg_num (pd ! i)))
                (pfm_get_event_name E (pfp_evt (request_param E argv) ! i))
           = result_row (reg_num (pc ! i)) (pmd_value E (reg_num (pc ! i)))
                (pfm_get_event_name E (the (pfm_find_event E (requested argv ! i))))"
    if "i < length (requested argv)" for i
    using that z by (simp add: request_param_def nth_append)
  have h3: "stdout (final_world (main E argv)) =
       [''<Press a key to stop monitoring>'' @ [nl],
        ''<Monitoring stopped on CPU'' @ dec_int (int WHICH_CPU) @ ''>'' @ [nl, nl]] @
       map (\<lambda>(i, name). result_row (reg_num (pc ! i)) (pmd_value E (reg_num (pc ! i)))
                            (pfm_get_event_name E (the (pfm_find_event E name))))
         (enumerate 0 (requested argv))"
    using row by (simp add: out success_stdout_def map_enumerate_nth)
  show ?thesis
    apply (intro exI conjI)
       apply (rule h1)
      apply (rule h2)
     apply (rule known)
    apply (rule h3)
    done
qed

text \<open>
  On the four-counter platform the first event sits in PMD7 and the second in PMD6:
  the rows follow the request, not the register numbers.
\<close>

theorem result_rows_in_request_order_witness:
  "exit_status (main demo_env [''syst'']) = Some 0 \<and>
   requested [''syst''] = [''cpu_cycles'', ''IA64_INST_RETIRED''] \<and>
   stdout (final_world (main demo_env [''syst''])) =
     [''<Press a key to stop monitoring>'' @ [nl],
      ''<Monitoring stopped on CPU0>'' @ [nl, nl],
      ''PMD7               123456 CPU_CYCLES'' @ [nl],
      ''PMD6                  789 IA64_INST_RETIRED'' @ [nl]]"
  using result_rows_in_request_order [OF demo_status]
  by (simp add: demo_run requested_def event_list_def)

text \<open>
  C7. The session is bound to exactly one CPU: every create-context call that a run
  issues passes one context, whose CPU mask is \<open>1 << WHICH_CPU\<close> and has exactly one
  bit set.
\<close>

theorem create_context_binds_one_cpu:
  "Call_perfmonctl pid PFM_CREATE_CONTEXT arg n r \<in> set (calls (final_world (main E argv))) \<Longrightarrow>
     \<exists>ctx. arg = Arg_ctx [ctx] \<and> n = 1 \<and> ctx_cpu_mask ctx = push_bit WHICH_CPU 1 \<and>
           bits_set (ctx_cpu_mask ctx) = 1"
proof -
  assume "Call_perfmonctl pid PFM_CREATE_CONTEXT arg n r \<in> set (calls (final_world (main E argv)))"
  with main_one_cpu have "one_cpu (Call_perfmonctl pid PFM_CREATE_CONTEXT arg n r)" by blast
  then show ?thesis by (auto split: perfmon_arg.splits list.splits)
qed

text \<open>The call of the run on the four-counter platform.\<close>

theorem create_context_binds_one_cpu_witness:
  "Call_perfmonctl 4242 PFM_CREATE_CONTEXT (Arg_ctx [\<lparr>ctx_flags = 8, ctx_cpu_mask = 1\<rparr>]) 1 None
     \<in> set (calls (final_world (main demo_env [''syst'']))) \<and>
   bits_set (ctx_cpu_mask \<lparr>ctx_flags = 8 :: 64 word, ctx_cpu_mask = 1 :: 64 word\<rparr>) = 1"
  using create_context_binds_one_cpu [of 4242 "Arg_ctx [\<lparr>ctx_flags = 8, ctx_cpu_mask = 1\<rparr>]" 1 None
          demo_env "[''syst'']"]
  by (simp add: demo_run)

text \<open>
  C9. The check of line 85 looks at \<open>argc - 1\<close> only: a run prints "Too many events
  specified" exactly when the number of arguments exceeds the counter count. A run
  without arguments therefore passes the check for every counter count from 0 on
  and resolves the built-in list of two events, whatever the capacity.
\<close>

theorem default_list_is_not_checked:
  assumes "pfm_initialize E" "0 \<le> pfm_get_num_counters E" "length argv \<le> 1"
  shows "requested argv = event_list \<and> length event_list = 2 \<and>
     stdout (final_world (main E argv)) \<noteq> [''Too many events specified'' @ [nl]] \<and>
     Call_pfm_find_event ''cpu_cycles'' 0 (pfm_find_event E ''cpu_cycles'')
       \<in> set (calls (final_world (main E argv))) \<and>
     (\<forall>args. (stdout (final_world (main E args)) = [''Too many events specified'' @ [nl]])
               = (int (length args) - 1 > pfm_get_num_counters E))"
proof -
  have r: "requested argv = event_list" using assms(3) by (simp add: requested_def)
  have le: "int (length argv) - 1 \<le> pfm_get_num_counters E" using assms(2,3) by simp
  have "stdout (final_world (main E argv)) \<noteq> [''Too many events specified'' @ [nl]]"
    using main_too_many_iff [of E argv] le by simp
  moreover have "Call_pfm_find_event ''cpu_cycles'' 0 (pfm_find_event E ''cpu_cycles'')
       \<in> set (calls (final_world (main E argv)))"
    using main_first_find [OF assms(1) le, of "''cpu_cycles''" "[''IA64_INST_RETIRED'']"] r
    by (simp add: event_list_def)
  moreover have "\<forall>args. (stdout (final_world (main E args)) = [''Too many events specified'' @ [nl]])
               = (int (length args) - 1 > pfm_get_num_counters E)"
    using main_too_many_iff [of E] assms(1) by simp
  ultimately show ?thesis using r by (simp add: event_list_def)
qed

text \<open>No arguments on a platform that reports one counter.\<close>

theorem default_list_is_not_checked_witness:
  "pfm_initialize one_counter_env \<and> 0 \<le> pfm_get_num_counters one_counter_env \<and>
   length [''syst''] \<le> 1 \<and>
   pfm_get_num_counters one_counter_env < int (length (requested [''syst''])) \<and>
   stdout (final_world (main one_counter_env [''syst''])) \<noteq> [''Too many events specified'' @ [nl]] \<and>
   Call_pfm_find_event ''cpu_cycles'' 0 (pfm_find_event one_counter_env ''cpu_cycles'')
     \<in> set (calls (final_world (main one_counter_env [''syst''])))"
  using default_list_is_not_checked [of one_counter_env "[''syst'']"]
  by (simp add: demo_fields event_list_def)

text \<open>
  C10. A run that stays within its arrays ends with status 0 or 1, never -1. It ends
  with status 1 exactly when some call reported failure or the count check failed.
  A failed \<^verbatim>\<open>PFM_READ_PMDS\<close> ends the run in \<^verbatim>\<open>fatal_error\<close> with status 1: the
  \<^verbatim>\<open>return -1\<close> behind it is never reached.
\<close>

theorem exit_status_is_0_or_1:
  "(exit_status (main E argv) = Some 0 \<or> exit_status (main E argv) = Some 1
      \<or> (\<exists>w. main E argv = Fault w)) \<and>
   exit_status (main E argv) \<noteq> Some (- 1) \<and>
   (exit_status (main E argv) = Some 1) =
     (\<exists>c\<in>set (calls (final_world (main E argv))). failed (int (length argv)) c) \<and>
   (perfmonctl E pid PFM_READ_PMDS (Arg_regs pd) (int n) \<noteq> None \<longrightarrow>
      exit_status (read_pmds E pid pd n w) = Some 1)"
proof (intro conjI impI)
  show "exit_status (main E argv) = Some 0 \<or> exit_status (main E argv) = Some 1
      \<or> (\<exists>w. main E argv = Fault w)"
    by (rule main_status)
  show "exit_status (main E argv) \<noteq> Some (- 1)"
    using main_status [of E argv] by auto
  show "(exit_status (main E argv) = Some 1) =
     (\<exists>c\<in>set (calls (final_world (main E argv))). failed (int (length argv)) c)"
    by (rule main_failed)
  assume "perfmonctl E pid PFM_READ_PMDS (Arg_regs pd) (int n) \<noteq> None"
  then show "exit_status (read_pmds E pid pd n w) = Some 1"
    using read_pmds_failure by blast
qed

text \<open>A kernel that refuses \<^verbatim>\<open>PFM_READ_PMDS\<close>.\<close>

theorem exit_status_is_0_or_1_witness:
  "exit_status (main read_fails_env [''syst'']) = Some 1 \<and>
   (\<exists>c\<in>set (calls (final_world (main read_fails_env [''syst'']))). failed (int (length [''syst''])) c) \<and>
   perfmonctl read_fails_env 4242 PFM_READ_PMDS (Arg_regs []) (int 0) \<noteq> None \<and>
   exit_status (read_pmds read_fails_env 4242 [] 0 start_world) = Some 1"
  using exit_status_is_0_or_1 [of read_fails_env "[''syst'']" 4242 "[]" 0 start_world]
  by (simp add: read_fails_run read_fails_perfmonctl)

end
